theory Spec2Isabelle
  imports Main "HOL-Library.AList" "HOL-Library.Sublist"
begin

section \<open>Python values\<close>

text \<open>
  The master configuration is what \<^verbatim>\<open>yaml.safe_load\<close> returns: nested mappings,
  sequences and scalars. A mapping is an association list in insertion order (Python
  dictionaries are ordered and have no duplicate keys); keys are strings. A float is
  carried by its \<^verbatim>\<open>repr\<close>: the program never computes with a float, it only
  prints it and tests its truth value.
\<close>

datatype pyval =
    PNone
  | PBool bool
  | PInt int
  | PFloat string
  | PStr string
  | PList "pyval list"
  | PDict "(string \<times> pyval) list"

type_synonym dict = "(string \<times> pyval) list"

text \<open>
  Exceptions are values. For an operation applied to a value of the wrong type the
  model reports the class Python raises when that value is \<^verbatim>\<open>None\<close>.
\<close>

datatype exn =
    KeyError string
  | AttributeError
  | TypeError
  | ValueError
  | FileNotFoundError
  | OSError

definition ebind :: "exn + 'a \<Rightarrow> ('a \<Rightarrow> exn + 'b) \<Rightarrow> exn + 'b" where
  "ebind m f = (case m of Inl e \<Rightarrow> Inl e | Inr x \<Rightarrow> f x)"

text \<open>\<^verbatim>\<open>d[k] = v\<close> on a dictionary is \<^const>\<open>AList.update\<close>: an existing key keeps
  its position, a new key goes to the end.\<close>

definition py_get :: "pyval \<Rightarrow> string \<Rightarrow> pyval \<Rightarrow> exn + pyval" where
  \<comment> \<open>\<^verbatim>\<open>obj.get(k, default)\<close>\<close>
  "py_get obj k dflt =
     (case obj of
        PDict d \<Rightarrow> Inr (case map_of d k of Some v \<Rightarrow> v | None \<Rightarrow> dflt)
      | _ \<Rightarrow> Inl AttributeError)"

definition py_getitem :: "pyval \<Rightarrow> string \<Rightarrow> exn + pyval" where
  \<comment> \<open>\<^verbatim>\<open>obj[k]\<close>\<close>
  "py_getitem obj k =
     (case obj of
        PDict d \<Rightarrow> (case map_of d k of Some v \<Rightarrow> Inr v | None \<Rightarrow> Inl (KeyError k))
      | _ \<Rightarrow> Inl TypeError)"

definition py_setitem :: "pyval \<Rightarrow> string \<Rightarrow> pyval \<Rightarrow> exn + pyval" where
  \<comment> \<open>\<^verbatim>\<open>obj[k] = v\<close>, returning the updated object\<close>
  "py_setitem obj k v =
     (case obj of
        PDict d \<Rightarrow> Inr (PDict (AList.update k v d))
      | _ \<Rightarrow> Inl TypeError)"

fun py_truthy :: "pyval \<Rightarrow> bool" where
  "py_truthy PNone = False"
| "py_truthy (PBool b) = b"
| "py_truthy (PInt i) = (i \<noteq> 0)"
| "py_truthy (PFloat r) = (r \<noteq> ''0.0'' \<and> r \<noteq> ''-0.0'')"
| "py_truthy (PStr s) = (s \<noteq> [])"
| "py_truthy (PList xs) = (xs \<noteq> [])"
| "py_truthy (PDict d) = (d \<noteq> [])"

subsection \<open>\<^verbatim>\<open>str\<close> and \<^verbatim>\<open>repr\<close>\<close>

definition digit_char :: "nat \<Rightarrow> char" where
  "digit_char n = char_of (48 + n)"

fun nat_dec :: "nat \<Rightarrow> string" where
  "nat_dec n = (if n < 10 then [digit_char n] else nat_dec (n div 10) @ [digit_char (n mod 10)])"

declare nat_dec.simps [simp del]

definition int_dec :: "int \<Rightarrow> string" where
  "int_dec i = (if i < 0 then CHR ''-'' # nat_dec (nat (- i)) else nat_dec (nat i))"

definition hex_char :: "nat \<Rightarrow> char" where
  "hex_char n = (if n < 10 then char_of (48 + n) else char_of (87 + n))"

definition repr_char :: "char \<Rightarrow> char \<Rightarrow> string" where
  "repr_char q c =
     (if c = CHR 0x5C then [CHR 0x5C, CHR 0x5C]
      else if c = q then [CHR 0x5C, q]
      else if c = CHR 0x0A then [CHR 0x5C, CHR ''n'']
      else if c = CHR 0x0D then [CHR 0x5C, CHR ''r'']
      else if c = CHR 0x09 then [CHR 0x5C, CHR ''t'']
      else if of_char c < (32::nat) \<or> of_char c = (127::nat)
        then [CHR 0x5C, CHR ''x'', hex_char (of_char c div 16), hex_char (of_char c mod 16)]
      else [c])"

definition repr_str :: "string \<Rightarrow> string" where
  \<comment> \<open>single quotes unless the string has a single quote and no double quote\<close>
  "repr_str s =
     (let q = (if CHR 0x27 \<in> set s \<and> CHR 0x22 \<notin> set s then CHR 0x22 else CHR 0x27)
      in [q] @ concat (map (repr_char q) s) @ [q])"

fun commas :: "string list \<Rightarrow> string" where
  "commas [] = []"
| "commas [x] = x"
| "commas (x # y # ys) = x @ '', '' @ commas (y # ys)"

fun py_repr :: "pyval \<Rightarrow> string" where
  "py_repr PNone = ''None''"
| "py_repr (PBool b) = (if b then ''True'' else ''False'')"
| "py_repr (PInt i) = int_dec i"
| "py_repr (PFloat r) = r"
| "py_repr (PStr s) = repr_str s"
| "py_repr (PList xs) = ''['' @ commas (map py_repr xs) @ '']''"
| "py_repr (PDict d) =
     ''{'' @ commas (map (\<lambda>kv. repr_str (fst kv) @ '': '' @ py_repr (snd kv)) d) @ ''}''"

definition py_str :: "pyval \<Rightarrow> string" where
  "py_str v = (case v of PStr s \<Rightarrow> s | _ \<Rightarrow> py_repr v)"

definition ascii_lower :: "char \<Rightarrow> char" where
  "ascii_lower c =
     (if (65::nat) \<le> of_char c \<and> of_char c \<le> (90::nat) then char_of (of_char c + (32::nat)) else c)"

definition str_lower :: "string \<Rightarrow> string" where
  "str_lower s = map ascii_lower s"

section \<open>The flattener\<close>

text \<open>
  \<^verbatim>\<open>_flatten_settings_for_configparser(settings_dict, prefix)\<close>: the loop over the items
  with the dictionary \<^verbatim>\<open>flat_dict\<close> under construction. \<^verbatim>\<open>flat_dict.update(d)\<close> stores
  the items of \<^verbatim>\<open>d\<close> one by one.
\<close>

type_synonym flat = "(string \<times> string) list"

definition dict_update_all :: "flat \<Rightarrow> flat \<Rightarrow> flat" where
  "dict_update_all flat_dict new = foldl (\<lambda>acc kv. AList.update (fst kv) (snd kv) acc) flat_dict new"

function flatten_loop :: "dict \<Rightarrow> string \<Rightarrow> flat \<Rightarrow> flat" where
  "flatten_loop [] pfx flat_dict = flat_dict"
| "flatten_loop ((key, val) # rest) pfx flat_dict =
     (case val of
        PNone \<Rightarrow> flatten_loop rest pfx flat_dict
      | PDict sub \<Rightarrow>
          flatten_loop rest pfx
            (dict_update_all flat_dict (flatten_loop sub (pfx @ key @ ''/'') []))
      | PBool b \<Rightarrow>
          flatten_loop rest pfx (AList.update (pfx @ key) (str_lower (py_str val)) flat_dict)
      | _ \<Rightarrow>
          flatten_loop rest pfx (AList.update (pfx @ key) (py_str val) flat_dict))"
  by pat_completeness auto
termination
  by (relation "measure (\<lambda>(items, pfx, flat_dict). size_list (size_prod (\<lambda>x. 0) size) items)") auto

definition flatten_settings_for_configparser :: "dict \<Rightarrow> string \<Rightarrow> flat" where
  "flatten_settings_for_configparser settings_dict pfx = flatten_loop settings_dict pfx []"


section \<open>Paths\<close>

text \<open>
  Paths are strings. \<^verbatim>\<open>Path.resolve()\<close> and \<^verbatim>\<open>os.getcwd()\<close> depend on the file
  system and come from the environment; \<^verbatim>\<open>posixpath\<close>'s \<^verbatim>\<open>join\<close>, \<^verbatim>\<open>normpath\<close>,
  \<^verbatim>\<open>abspath\<close> and \<^verbatim>\<open>relpath\<close> are string functions and are written out.
\<close>

record fsenv =
  getcwd :: string
  resolve :: "string \<Rightarrow> string"

fun split_sep :: "string \<Rightarrow> string list" where
  \<comment> \<open>\<^verbatim>\<open>s.split('/')\<close>\<close>
  "split_sep [] = [[]]"
| "split_sep (c # cs) =
     (if c = CHR ''/'' then [] # split_sep cs
      else (case split_sep cs of [] \<Rightarrow> [[c]] | x # xs \<Rightarrow> (c # x) # xs))"

fun join_sep :: "string list \<Rightarrow> string" where
  \<comment> \<open>\<^verbatim>\<open>'/'.join(comps)\<close>\<close>
  "join_sep [] = []"
| "join_sep [x] = x"
| "join_sep (x # y # ys) = x @ ''/'' @ join_sep (y # ys)"

definition is_abs :: "string \<Rightarrow> bool" where
  "is_abs p = (case p of [] \<Rightarrow> False | c # _ \<Rightarrow> c = CHR ''/'')"

definition path_join :: "string \<Rightarrow> string \<Rightarrow> string" where
  \<comment> \<open>\<^verbatim>\<open>posixpath.join(a, b)\<close>, also the \<^verbatim>\<open>/\<close> of \<^verbatim>\<open>pathlib\<close>\<close>
  "path_join a b =
     (if is_abs b then b
      else if a = [] \<or> last a = CHR ''/'' then a @ b
      else a @ ''/'' @ b)"

definition norm_step :: "bool \<Rightarrow> string list \<Rightarrow> string \<Rightarrow> string list" where
  \<comment> \<open>one round of the loop of \<^verbatim>\<open>normpath\<close> over the components\<close>
  "norm_step initial_slashes new_comps cmp =
     (if cmp = [] \<or> cmp = ''.'' then new_comps
      else if cmp \<noteq> ''..'' \<or> (\<not> initial_slashes \<and> new_comps = [])
              \<or> (new_comps \<noteq> [] \<and> last new_comps = ''..'')
        then new_comps @ [cmp]
      else if new_comps \<noteq> [] then butlast new_comps
      else new_comps)"

definition normpath :: "string \<Rightarrow> string" where
  "normpath path =
     (if path = [] then ''.''
      else
        let slashes = (if is_abs path then
                         (if take 2 path = ''//'' \<and> take 3 path \<noteq> ''///'' then ''//'' else ''/'')
                       else []);
            comps = foldl (norm_step (is_abs path)) [] (split_sep path);
            res = slashes @ join_sep comps
        in if res = [] then ''.'' else res)"

definition abspath :: "fsenv \<Rightarrow> string \<Rightarrow> string" where
  "abspath fs path = normpath (if is_abs path then path else path_join (getcwd fs) path)"

fun commonprefix :: "string list \<Rightarrow> string list \<Rightarrow> string list" where
  "commonprefix (x # xs) (y # ys) = (if x = y then x # commonprefix xs ys else [])"
| "commonprefix _ _ = []"

definition relpath :: "fsenv \<Rightarrow> string \<Rightarrow> string \<Rightarrow> exn + string" where
  \<comment> \<open>\<^verbatim>\<open>os.path.relpath(path, start)\<close>\<close>
  "relpath fs path start =
     (if path = [] then Inl ValueError
      else
        let start_list = filter (\<lambda>x. x \<noteq> []) (split_sep (abspath fs start));
            path_list = filter (\<lambda>x. x \<noteq> []) (split_sep (abspath fs path));
            i = length (commonprefix start_list path_list);
            rel_list = replicate (length start_list - i) ''..'' @ drop i path_list
        in if rel_list = [] then Inr ''.'' else Inr (join_sep rel_list))"

section \<open>The configuration compiler\<close>

text \<open>
  The compiler builds one dictionary and changes it through local names that stand for
  its sub-dictionaries (\<^verbatim>\<open>sim_cfg = beam_ini_data.setdefault("simulator", {})\<close>). In the
  model the dictionary under construction is threaded through a list of statements and
  every such local name is the path of keys it was obtained by. The inputs loaded from
  YAML are trees; \<^verbatim>\<open>copy.deepcopy\<close> of a value is the value.
\<close>

type_synonym stmt = "pyval \<Rightarrow> exn + pyval"

fun update_at :: "string list \<Rightarrow> (pyval \<Rightarrow> exn + pyval) \<Rightarrow> pyval \<Rightarrow> exn + pyval" where
  "update_at [] f obj = f obj"
| "update_at (k # ks) f obj =
     (case obj of
        PDict d \<Rightarrow>
          (case map_of d k of
             Some sub \<Rightarrow> ebind (update_at ks f sub) (\<lambda>sub'. Inr (PDict (AList.update k sub' d)))
           | None \<Rightarrow> Inl (KeyError k))
      | _ \<Rightarrow> Inl TypeError)"

definition py_setdefault :: "pyval \<Rightarrow> string \<Rightarrow> exn + pyval" where
  \<comment> \<open>\<^verbatim>\<open>obj.setdefault(k, {})\<close>, returning the object\<close>
  "py_setdefault obj k =
     (case obj of
        PDict d \<Rightarrow> Inr (case map_of d k of Some v \<Rightarrow> obj | None \<Rightarrow> PDict (AList.update k (PDict []) d))
      | _ \<Rightarrow> Inl AttributeError)"

definition setdefault_at :: "string list \<Rightarrow> string \<Rightarrow> stmt" where
  \<comment> \<open>\<^verbatim>\<open>x.setdefault(k, {})\<close> where \<^verbatim>\<open>x\<close> is the object at the path\<close>
  "setdefault_at p k tree = update_at p (\<lambda>obj. py_setdefault obj k) tree"

definition assign_at :: "string list \<Rightarrow> string \<Rightarrow> exn + pyval \<Rightarrow> stmt" where
  \<comment> \<open>\<^verbatim>\<open>x[k] = rhs\<close>: the right-hand side is evaluated first\<close>
  "assign_at p k rhs tree = ebind rhs (\<lambda>v. update_at p (\<lambda>obj. py_setitem obj k v) tree)"

definition setdefault_assign_at :: "string list \<Rightarrow> string \<Rightarrow> string \<Rightarrow> exn + pyval \<Rightarrow> stmt" where
  \<comment> \<open>\<^verbatim>\<open>x.setdefault(k0, {})[k] = rhs\<close>\<close>
  "setdefault_assign_at p k0 k rhs tree =
     ebind rhs (\<lambda>v. ebind (setdefault_at p k0 tree)
                       (update_at (p @ [k0]) (\<lambda>obj. py_setitem obj k v)))"

definition eval_stmt :: "exn + 'a \<Rightarrow> stmt" where
  \<comment> \<open>\<^verbatim>\<open>name = rhs\<close> for a local name: only the exception is an effect\<close>
  "eval_stmt rhs tree = ebind rhs (\<lambda>v. Inr tree)"

fun run_stmts :: "stmt list \<Rightarrow> pyval \<Rightarrow> exn + pyval" where
  "run_stmts [] tree = Inr tree"
| "run_stmts (s # ss) tree = ebind (s tree) (run_stmts ss)"

definition dget :: "dict \<Rightarrow> string \<Rightarrow> pyval \<Rightarrow> pyval" where
  \<comment> \<open>\<^verbatim>\<open>d.get(k, default)\<close> on a dictionary\<close>
  "dget d k dflt = (case map_of d k of Some v \<Rightarrow> v | None \<Rightarrow> dflt)"

definition dgetitem :: "dict \<Rightarrow> string \<Rightarrow> exn + pyval" where
  "dgetitem d k = (case map_of d k of Some v \<Rightarrow> Inr v | None \<Rightarrow> Inl (KeyError k))"

definition py_items :: "pyval \<Rightarrow> exn + dict" where
  "py_items obj = (case obj of PDict d \<Rightarrow> Inr d | _ \<Rightarrow> Inl AttributeError)"

definition as_path :: "pyval \<Rightarrow> exn + string" where
  \<comment> \<open>the operand of \<^verbatim>\<open>Path / x\<close> must be a string\<close>
  "as_path v = (case v of PStr s \<Rightarrow> Inr s | _ \<Rightarrow> Inl TypeError)"

definition common_sections :: "dict \<Rightarrow> dict" where
  \<comment> \<open>step 1: the loop over the four common section names\<close>
  "common_sections oskar_ini_defaults =
     foldl (\<lambda>ini_data common_sec_name.
              AList.update common_sec_name
                (case map_of oskar_ini_defaults common_sec_name of
                   Some sec \<Rightarrow> sec
                 | None \<Rightarrow> PDict [])
                ini_data)
       [] [''General'', ''simulator'', ''observation'', ''telescope'']"

definition merge_module :: "dict \<Rightarrow> dict \<Rightarrow> dict" where
  \<comment> \<open>step 2: \<^verbatim>\<open>ini_data[section_key_in_module] = section_values_in_module\<close>\<close>
  "merge_module ini_data module_items =
     foldl (\<lambda>acc kv. AList.update (fst kv) (snd kv) acc) ini_data module_items"

definition general_stmts :: "string \<Rightarrow> dict \<Rightarrow> stmt list" where
  "general_stmts app oskar_ini_defaults =
     [setdefault_assign_at [] ''General'' ''app'' (Inr (PStr app)),
      assign_at [''General''] ''version''
        (py_get (dget oskar_ini_defaults ''General'' (PDict [])) ''version'' (PStr ''unknown''))]"

definition simulator_stmts :: "dict \<Rightarrow> stmt list" where
  "simulator_stmts oskar_ini_defaults =
     (let sim_defaults = dget oskar_ini_defaults ''simulator'' (PDict [])
      in [setdefault_at [] ''simulator'',
          assign_at [''simulator''] ''use_gpus'' (py_get sim_defaults ''use_gpus'' PNone),
          assign_at [''simulator''] ''double_precision''
            (py_get sim_defaults ''double_precision'' PNone)])"

definition observation_stmts :: "dict \<Rightarrow> dict \<Rightarrow> stmt list" where
  "observation_stmts oskar_ini_defaults current_pc_config =
     (let obs_defaults = dget oskar_ini_defaults ''observation'' (PDict []);
          obs_cfg = [''observation'']
      in [setdefault_at [] ''observation'',
          assign_at obs_cfg ''phase_centre_ra_deg'' (dgetitem current_pc_config ''ra_deg''),
          assign_at obs_cfg ''phase_centre_dec_deg'' (dgetitem current_pc_config ''dec_deg''),
          assign_at obs_cfg ''start_time_utc'' (dgetitem current_pc_config ''start_time_utc''),
          assign_at obs_cfg ''start_frequency_hz'' (py_get obs_defaults ''start_frequency_hz'' PNone),
          assign_at obs_cfg ''frequency_inc_hz'' (py_get obs_defaults ''frequency_inc_hz'' PNone),
          assign_at obs_cfg ''num_channels'' (py_get obs_defaults ''num_channels'' PNone),
          assign_at obs_cfg ''length'' (py_get obs_defaults ''length'' PNone),
          assign_at obs_cfg ''num_time_steps'' (py_get obs_defaults ''num_time_steps'' PNone)])"

definition telescope_stmts ::
  "fsenv \<Rightarrow> dict \<Rightarrow> dict \<Rightarrow> string \<Rightarrow> string \<Rightarrow> stmt list" where
  "telescope_stmts fs oskar_ini_defaults current_tel_config
       current_run_specific_output_dir project_root_path =
     (let tel_cfg_sec = [''telescope''];
          tel_defaults = dget oskar_ini_defaults ''telescope'' (PDict []);
          tel_input_dir_abs =
            ebind (ebind (dgetitem current_tel_config ''oskar_input_directory'') as_path)
              (\<lambda>d. Inr (resolve fs (path_join project_root_path d)));
          ap_array_cfg = [''telescope'', ''aperture_array''];
          el_pattern_cfg = [''telescope'', ''aperture_array'', ''element_pattern''];
          arr_pattern_el_cfg = [''telescope'', ''aperture_array'', ''array_pattern'', ''element''];
          el_pattern_defaults =
            ebind (py_get tel_defaults ''aperture_array'' (PDict []))
              (\<lambda>a. py_get a ''element_pattern'' (PDict []));
          arr_el_defaults =
            ebind (ebind (py_get tel_defaults ''aperture_array'' (PDict []))
                     (\<lambda>a. py_get a ''array_pattern'' (PDict [])))
              (\<lambda>a. py_get a ''element'' (PDict []));
          arr_el_default = (\<lambda>k. ebind arr_el_defaults (\<lambda>d. py_get d k PNone))
      in [setdefault_at [] ''telescope'',
          eval_stmt tel_input_dir_abs,
          assign_at tel_cfg_sec ''input_directory''
            (ebind tel_input_dir_abs
               (\<lambda>a. ebind (relpath fs a current_run_specific_output_dir) (\<lambda>r. Inr (PStr r)))),
          setdefault_at tel_cfg_sec ''aperture_array'',
          setdefault_at ap_array_cfg ''element_pattern'',
          setdefault_at ap_array_cfg ''array_pattern'',
          setdefault_at [''telescope'', ''aperture_array'', ''array_pattern''] ''element'',
          eval_stmt el_pattern_defaults,
          eval_stmt arr_el_defaults,
          assign_at el_pattern_cfg ''enable_numerical''
            (ebind el_pattern_defaults (\<lambda>d. py_get d ''enable_numerical'' (PBool False))),
          assign_at arr_pattern_el_cfg ''x_gain'' (arr_el_default ''x_gain''),
          assign_at arr_pattern_el_cfg ''y_gain'' (arr_el_default ''y_gain''),
          assign_at arr_pattern_el_cfg ''x_phase_error_fixed_deg''
            (arr_el_default ''x_phase_error_fixed_deg''),
          assign_at arr_pattern_el_cfg ''y_phase_error_fixed_deg''
            (arr_el_default ''y_phase_error_fixed_deg'')])"

definition error_stmts :: "dict \<Rightarrow> dict \<Rightarrow> stmt list" where
  \<comment> \<open>the block \<^verbatim>\<open># Effective errors based on global flag and per-PC settings\<close>\<close>
  "error_stmts global_run_settings current_pc_config =
     (let arr_pattern_el_cfg = [''telescope'', ''aperture_array'', ''array_pattern'', ''element''];
          is_errors_globally_on = dget global_run_settings ''include_telescope_errors'' (PBool False);
          eff_gain_std =
            (if py_truthy is_errors_globally_on
             then dget current_pc_config ''gain_error_std'' (PStr ''0.0'') else PStr ''0.0'');
          eff_phase_std =
            (if py_truthy is_errors_globally_on
             then dget current_pc_config ''phase_error_std'' (PStr ''0.0'') else PStr ''0.0'')
      in [assign_at arr_pattern_el_cfg ''x_gain_error_time'' (Inr eff_gain_std),
          assign_at arr_pattern_el_cfg ''y_gain_error_time'' (Inr eff_gain_std),
          assign_at arr_pattern_el_cfg ''x_phase_error_time_deg'' (Inr eff_phase_std),
          assign_at arr_pattern_el_cfg ''y_phase_error_time_deg'' (Inr eff_phase_std)])"

definition beam_pattern_stmts :: "dict \<Rightarrow> dict \<Rightarrow> stmt list" where
  "beam_pattern_stmts oskar_ini_defaults global_output_config =
     (let beam_pattern_cfg_sec = [''beam_pattern''];
          beam_pattern_module_defaults =
            py_get (dget oskar_ini_defaults ''beam_pattern_module'' (PDict []))
              ''beam_pattern'' (PDict []);
          beam_image_defaults =
            ebind beam_pattern_module_defaults (\<lambda>m. py_get m ''beam_image'' (PDict []));
          station_outputs_defaults =
            ebind (ebind beam_pattern_module_defaults (\<lambda>m. py_get m ''station_outputs'' (PDict [])))
              (\<lambda>s. py_get s ''fits_image'' (PDict []))
      in [setdefault_at [] ''beam_pattern'',
          eval_stmt beam_pattern_module_defaults,
          setdefault_at beam_pattern_cfg_sec ''beam_image'',
          eval_stmt beam_image_defaults,
          assign_at [''beam_pattern'', ''beam_image''] ''fov_deg''
            (ebind beam_image_defaults (\<lambda>d. py_get d ''fov_deg'' PNone)),
          assign_at beam_pattern_cfg_sec ''root_path''
            (Inr (dget global_output_config ''beam_root_path_base'' (PStr ''beam_output_default''))),
          setdefault_at beam_pattern_cfg_sec ''station_outputs'',
          setdefault_at [''beam_pattern'', ''station_outputs''] ''fits_image'',
          eval_stmt station_outputs_defaults,
          assign_at [''beam_pattern'', ''station_outputs'', ''fits_image''] ''amp''
            (ebind station_outputs_defaults (\<lambda>d. py_get d ''amp'' (PBool True)))])"

definition generate_beam_ini_data ::
  "fsenv \<Rightarrow> dict \<Rightarrow> dict \<Rightarrow> dict \<Rightarrow> dict \<Rightarrow> dict \<Rightarrow> string \<Rightarrow> string \<Rightarrow> exn + pyval" where
  "generate_beam_ini_data fs oskar_ini_defaults current_tel_config current_pc_config
       global_run_settings global_output_config current_run_specific_output_dir project_root_path =
     ebind (py_items (dget oskar_ini_defaults ''beam_pattern_module'' (PDict [])))
       (\<lambda>beam_module_from_defaults.
          run_stmts
            (general_stmts ''oskar_sim_beam_pattern'' oskar_ini_defaults
             @ simulator_stmts oskar_ini_defaults
             @ observation_stmts oskar_ini_defaults current_pc_config
             @ telescope_stmts fs oskar_ini_defaults current_tel_config
                 current_run_specific_output_dir project_root_path
             @ error_stmts global_run_settings current_pc_config
             @ beam_pattern_stmts oskar_ini_defaults global_output_config)
            (PDict (merge_module (common_sections oskar_ini_defaults) beam_module_from_defaults)))"

definition interferometer_stmts :: "dict \<Rightarrow> dict \<Rightarrow> stmt list" where
  "interferometer_stmts oskar_ini_defaults global_output_config =
     (let interf_sec_cfg = [''interferometer''];
          interf_module_defaults =
            py_get (dget oskar_ini_defaults ''interferometer_module'' (PDict []))
              ''interferometer'' (PDict [])
      in [setdefault_at [] ''interferometer'',
          eval_stmt interf_module_defaults,
          assign_at interf_sec_cfg ''ms_filename''
            (Inr (dget global_output_config ''interf_ms_base_filename'' (PStr ''vis_default.ms''))),
          assign_at interf_sec_cfg ''channel_bandwidth_hz''
            (ebind interf_module_defaults (\<lambda>d. py_get d ''channel_bandwidth_hz'' PNone)),
          assign_at interf_sec_cfg ''time_average_sec''
            (ebind interf_module_defaults (\<lambda>d. py_get d ''time_average_sec'' PNone))])"

definition sky_stmts :: "fsenv \<Rightarrow> dict \<Rightarrow> dict \<Rightarrow> pyval \<Rightarrow> string \<Rightarrow> string \<Rightarrow> stmt list" where
  "sky_stmts fs oskar_ini_defaults current_sky_config sky_models_base_dir
       current_run_specific_output_dir project_root_path =
     (let sky_sec_cfg = [''sky'', ''oskar_sky_model''];
          sky_module_defaults =
            ebind (py_get (dget oskar_ini_defaults ''interferometer_module'' (PDict []))
                     ''sky'' (PDict []))
              (\<lambda>s. py_get s ''oskar_sky_model'' (PDict []));
          sky_model_file_abs =
            ebind (as_path sky_models_base_dir) (\<lambda>base.
            ebind (ebind (dgetitem current_sky_config ''filename'') as_path)
              (\<lambda>f. Inr (resolve fs (path_join (path_join project_root_path base) f))))
      in [setdefault_at [] ''sky'',
          setdefault_at [''sky''] ''oskar_sky_model'',
          eval_stmt sky_module_defaults,
          eval_stmt sky_model_file_abs,
          assign_at sky_sec_cfg ''file''
            (ebind sky_model_file_abs
               (\<lambda>a. ebind (relpath fs a current_run_specific_output_dir) (\<lambda>r. Inr (PStr r)))),
          setdefault_assign_at sky_sec_cfg ''filter'' ''radius_outer_deg''
            (ebind (ebind sky_module_defaults (\<lambda>d. py_get d ''filter'' (PDict [])))
               (\<lambda>f. py_get f ''radius_outer_deg'' PNone))])"

definition generate_interf_ini_data ::
  "fsenv \<Rightarrow> dict \<Rightarrow> dict \<Rightarrow> dict \<Rightarrow> dict \<Rightarrow> dict \<Rightarrow> dict \<Rightarrow> pyval \<Rightarrow> string \<Rightarrow> string
     \<Rightarrow> exn + pyval" where
  "generate_interf_ini_data fs oskar_ini_defaults current_tel_config current_sky_config
       current_pc_config global_run_settings global_output_config sky_models_base_dir
       current_run_specific_output_dir project_root_path =
     ebind (py_items (dget oskar_ini_defaults ''interferometer_module'' (PDict [])))
       (\<lambda>interf_module_from_defaults.
          run_stmts
            (general_stmts ''oskar_sim_interferometer'' oskar_ini_defaults
             @ simulator_stmts oskar_ini_defaults
             @ observation_stmts oskar_ini_defaults current_pc_config
             @ telescope_stmts fs oskar_ini_defaults current_tel_config
                 current_run_specific_output_dir project_root_path
             @ error_stmts global_run_settings current_pc_config
             @ interferometer_stmts oskar_ini_defaults global_output_config
             @ sky_stmts fs oskar_ini_defaults current_sky_config sky_models_base_dir
                 current_run_specific_output_dir project_root_path)
            (PDict (merge_module (common_sections oskar_ini_defaults) interf_module_from_defaults)))"


section \<open>The process runners\<close>

text \<open>
  The world the runners act on: which files exist, what has been written to each log
  file (one list element per \<^verbatim>\<open>write\<close> call), the console, the calls made to
  \<^verbatim>\<open>subprocess.run\<close>, the directories made and the INI files written. What the operating system answers comes from the environment:
  whether an \<^verbatim>\<open>open(path, "a")\<close> succeeds, the wall-clock time, and what
  \<^verbatim>\<open>subprocess.run\<close> does. Each question takes one tick, so two questions of the same
  kind may be answered differently. Once a log file is open its \<^verbatim>\<open>write\<close> calls
  succeed.
\<close>

record world =
  files :: "string list"
  logs :: "string \<Rightarrow> string list"
  console :: "string list"
  launched :: "(string list \<times> string) list"
  mkdirs :: "string list"
  written :: "(string \<times> (string \<times> flat) list) list"
  tick :: nat

record env =
  fsys :: fsenv
  open_append :: "nat \<Rightarrow> string \<Rightarrow> exn option"
  now :: "nat \<Rightarrow> string"
  subprocess_run :: "nat \<Rightarrow> string list \<Rightarrow> string \<Rightarrow> exn + (int \<times> string \<times> string)"
  exn_text :: "exn \<Rightarrow> string"
  write_file :: "nat \<Rightarrow> string \<Rightarrow> exn option"
  make_dir :: "nat \<Rightarrow> string \<Rightarrow> exn option"
  format_pattern :: "string \<Rightarrow> (string \<times> pyval) list \<Rightarrow> exn + string"

definition py_print :: "string \<Rightarrow> world \<Rightarrow> world" where
  "py_print msg w = w\<lparr>console := console w @ [msg]\<rparr>"

definition log_write :: "string \<Rightarrow> string \<Rightarrow> world \<Rightarrow> world" where
  "log_write p chunk w = w\<lparr>logs := (logs w)(p := logs w p @ [chunk])\<rparr>"

definition log_writes :: "string \<Rightarrow> string list \<Rightarrow> world \<Rightarrow> world" where
  "log_writes p chunks w = foldl (\<lambda>w chunk. log_write p chunk w) w chunks"

definition open_log :: "env \<Rightarrow> string \<Rightarrow> world \<Rightarrow> exn option \<times> world" where
  \<comment> \<open>\<^verbatim>\<open>open(p, "a")\<close>: creates the file when it succeeds\<close>
  "open_log env p w =
     (case open_append env (tick w) p of
        None \<Rightarrow>
          (None, w\<lparr>files := (if p \<in> set (files w) then files w else files w @ [p]),
                    tick := Suc (tick w)\<rparr>)
      | Some e \<Rightarrow> (Some e, w\<lparr>tick := Suc (tick w)\<rparr>))"

definition clock :: "env \<Rightarrow> world \<Rightarrow> string \<times> world" where
  \<comment> \<open>\<^verbatim>\<open>datetime.datetime.now().strftime("%Y-%m-%d %H:%M:%S")\<close>\<close>
  "clock env w = (now env (tick w), w\<lparr>tick := Suc (tick w)\<rparr>)"

definition path_exists :: "world \<Rightarrow> string \<Rightarrow> bool" where
  "path_exists w p = (p \<in> set (files w))"

definition safe_char :: "char \<Rightarrow> bool" where
  \<comment> \<open>the characters \<^verbatim>\<open>shlex.quote\<close> leaves alone\<close>
  "safe_char c =
     (let n = (of_char c :: nat)
      in (48 \<le> n \<and> n \<le> 57) \<or> (65 \<le> n \<and> n \<le> 90) \<or> (97 \<le> n \<and> n \<le> 122)
         \<or> c \<in> set ''_@%+=:,./-'')"

definition shlex_quote :: "string \<Rightarrow> string" where
  "shlex_quote s =
     (if s = [] then [CHR 0x27, CHR 0x27]
      else if list_all safe_char s then s
      else [CHR 0x27]
           @ concat (map (\<lambda>c. if c = CHR 0x27
                                then [CHR 0x27, CHR 0x22, CHR 0x27, CHR 0x22, CHR 0x27]
                                else [c]) s)
           @ [CHR 0x27])"

definition is_space :: "char \<Rightarrow> bool" where
  "is_space c = (let n = (of_char c :: nat) in (9 \<le> n \<and> n \<le> 13) \<or> (28 \<le> n \<and> n \<le> 32))"

definition strip_nonempty :: "string \<Rightarrow> bool" where
  \<comment> \<open>the truth value of \<^verbatim>\<open>s.strip()\<close>\<close>
  "strip_nonempty s = (\<not> list_all is_space s)"

text \<open>
  The three runners are the same function but for their texts and for the INI file, which
  \<^verbatim>\<open>run_calibrate\<close> does not have. The texts of a runner:
\<close>

record texts =
  attempt_header :: string
  ini_missing :: string
  executing :: string
  success_console :: string
  success_log :: string
  failed_console :: string
  failed_log :: string
  unexpected :: string
  closing :: string

definition final_log :: "env \<Rightarrow> texts \<Rightarrow> string \<Rightarrow> world \<Rightarrow> world" where
  \<comment> \<open>the \<^verbatim>\<open>finally\<close> block\<close>
  "final_log env tx log_file_path w =
     (case open_log env log_file_path w of
        (None, w1) \<Rightarrow>
          (let (final_time, w2) = clock env w1
           in log_write log_file_path (closing tx @ final_time @ '' ---\<newline>\<newline>'') w2)
      | (Some e, w1) \<Rightarrow> w1)"

definition log_failure :: "env \<Rightarrow> string \<Rightarrow> string list \<Rightarrow> world \<Rightarrow> world" where
  \<comment> \<open>the \<^verbatim>\<open>try: with open(...) ... except Exception: pass\<close> of an exception handler\<close>
  "log_failure env log_file_path chunks w =
     (case open_log env log_file_path w of
        (None, w1) \<Rightarrow> log_writes log_file_path chunks w1
      | (Some e, w1) \<Rightarrow> w1)"

definition log_preamble ::
  "env \<Rightarrow> texts \<Rightarrow> string \<Rightarrow> string option \<Rightarrow> string \<Rightarrow> world \<Rightarrow> world" where
  \<comment> \<open>the four (three for \<^verbatim>\<open>run_calibrate\<close>) writes at the head of the \<^verbatim>\<open>with\<close> block\<close>
  "log_preamble env tx shell_like_command_display ini_file_path cwd_path w =
     (let log_file_path = path_join cwd_path ''run.log'';
          (current_time, w1) = clock env w
      in log_writes log_file_path
           ([''--- Attempting '' @ attempt_header tx @ '' at '' @ current_time @ '' ---\<newline>'',
             ''Run Directory (CWD): '' @ resolve (fsys env) cwd_path @ ''\<newline>'']
            @ (case ini_file_path of
                 None \<Rightarrow> []
               | Some ini \<Rightarrow>
                   [''INI File: ''
                    @ (if is_abs ini then resolve (fsys env) ini else path_join cwd_path ini)
                    @ ''\<newline>''])
            @ [''Command to be executed in CWD: '' @ shell_like_command_display
               @ ''\<newline>\<newline>'']) w1)"

definition ini_not_found :: "texts \<Rightarrow> string \<Rightarrow> string \<Rightarrow> world \<Rightarrow> (exn + bool) \<times> world" where
  \<comment> \<open>the branch \<^verbatim>\<open>if not ini_file_path.exists()\<close>\<close>
  "ini_not_found tx log_file_path ini w =
     (let error_msg = ''    ERROR: '' @ ini_missing tx @ '' INI file not found at '' @ ini
      in (Inr False,
          log_writes log_file_path
            [''ERROR: '' @ error_msg @ ''\<newline>'', ''--- Simulation Not Started ---\<newline>\<newline>'']
            (py_print error_msg w)))"

definition dry_run :: "string \<Rightarrow> string \<Rightarrow> string \<Rightarrow> world \<Rightarrow> (exn + bool) \<times> world" where
  \<comment> \<open>the branch \<^verbatim>\<open>if is_dry_run\<close>\<close>
  "dry_run log_file_path shell_like_command_display cwd_path w =
     (Inr True,
      log_writes log_file_path
        [''[DRY RUN] Command not executed.\<newline>'', ''--- Dry Run Concluded ---\<newline>\<newline>'']
        (py_print (''    [DRY RUN] Would execute: '' @ shell_like_command_display
                   @ '' (from CWD: '' @ cwd_path @ '')'') w))"

definition execute ::
  "env \<Rightarrow> texts \<Rightarrow> string list \<Rightarrow> string \<Rightarrow> string \<Rightarrow> world \<Rightarrow> (exn + bool) \<times> world" where
  \<comment> \<open>from \<^verbatim>\<open>print("    Executing ...")\<close> to the end of the \<^verbatim>\<open>with\<close> block\<close>
  "execute env tx command log_file_path cwd_path w =
     (let w1 = py_print (executing tx) w;
          w2 = w1\<lparr>launched := launched w1 @ [(command, cwd_path)], tick := Suc (tick w1)\<rparr>
      in case subprocess_run env (tick w1) command cwd_path of
           Inl e \<Rightarrow> (Inl e, w2)
         | Inr (returncode, out, err) \<Rightarrow>
             (let w3 = log_writes log_file_path
                         [''Exit Code: '' @ int_dec returncode @ ''\<newline>\<newline>'',
                          ''--- Stdout ---\<newline>'',
                          (if strip_nonempty out then out else ''<No stdout>\<newline>''),
                          ''\<newline>--- Stderr ---\<newline>'',
                          (if strip_nonempty err then err else ''<No stderr>\<newline>'')] w2
              in if returncode = 0 then
                   (let w4 = log_write log_file_path (success_log tx)
                               (py_print (success_console tx) w3);
                        w5 = (if strip_nonempty out
                              then py_print (''      (stdout logged to '' @ log_file_path @ '')'') w4
                              else w4);
                        w6 = (if strip_nonempty err
                              then py_print (''      (stderr logged to '' @ log_file_path @ '')'') w5
                              else w5)
                    in (Inr True, w6))
                 else
                   (let w4 = log_write log_file_path
                               (failed_log tx @ int_dec returncode @ '') !!!\<newline>'')
                               (py_print (failed_console tx @ int_dec returncode @ ''.'') w3);
                        w5 = (if strip_nonempty out
                              then py_print out (py_print ''    Stdout from error:'' w4)
                              else w4);
                        w6 = (if strip_nonempty err
                              then py_print err (py_print ''    Stderr from error:'' w5)
                              else w5)
                    in (Inr False, w6))))"

definition attempt ::
  "env \<Rightarrow> texts \<Rightarrow> string list \<Rightarrow> string \<Rightarrow> string option \<Rightarrow> string \<Rightarrow> bool \<Rightarrow> world
     \<Rightarrow> (exn + bool) \<times> world" where
  \<comment> \<open>the body of the \<^verbatim>\<open>try\<close>\<close>
  "attempt env tx command shell_like_command_display ini_file_path cwd_path is_dry_run w =
     (let log_file_path = path_join cwd_path ''run.log'' in
      case open_log env log_file_path w of
        (Some e, w1) \<Rightarrow> (Inl e, w1)
      | (None, w1) \<Rightarrow>
          (let w2 = log_preamble env tx shell_like_command_display ini_file_path cwd_path w1
           in case ini_file_path of
                Some ini \<Rightarrow>
                  if \<not> path_exists w2 ini then ini_not_found tx log_file_path ini w2
                  else if is_dry_run
                    then dry_run log_file_path shell_like_command_display cwd_path w2
                  else execute env tx command log_file_path cwd_path w2
              | None \<Rightarrow>
                  if is_dry_run
                    then dry_run log_file_path shell_like_command_display cwd_path w2
                  else execute env tx command log_file_path cwd_path w2))"

definition run_logged ::
  "env \<Rightarrow> texts \<Rightarrow> string \<Rightarrow> string list \<Rightarrow> string \<Rightarrow> string option \<Rightarrow> string \<Rightarrow> bool \<Rightarrow> world
     \<Rightarrow> bool \<times> world" where
  \<comment> \<open>\<^verbatim>\<open>try\<close>, the two \<^verbatim>\<open>except\<close> clauses and \<^verbatim>\<open>finally\<close>\<close>
  "run_logged env tx executable_path command shell_like_command_display ini_file_path cwd_path
       is_dry_run w =
     (let log_file_path = path_join cwd_path ''run.log'';
          (outcome, w1) = attempt env tx command shell_like_command_display ini_file_path
                            cwd_path is_dry_run w;
          (result, w2) =
            (case outcome of
               Inr b \<Rightarrow> (b, w1)
             | Inl e \<Rightarrow>
                 if e = FileNotFoundError then
                   (let error_msg = ''    ERROR: Executable '' @ [CHR 0x27] @ executable_path
                          @ [CHR 0x27] @ '' not found. Please check your PATH or configuration.''
                    in (False,
                        log_failure env log_file_path
                          [''!!! FATAL ERROR: '' @ error_msg @ '' !!!\<newline>'',
                           ''--- Simulation Not Started ---\<newline>\<newline>'']
                          (py_print error_msg w1)))
                 else
                   (let error_msg = unexpected tx @ exn_text env e
                    in (False,
                        log_failure env log_file_path
                          [''!!! UNEXPECTED FATAL ERROR: '' @ error_msg @ '' !!!\<newline>'',
                           ''--- Simulation State Unknown ---\<newline>\<newline>'']
                          (py_print error_msg w1))))
      in (result, final_log env tx log_file_path w2))"

definition interf_texts :: texts where
  "interf_texts =
     \<lparr>attempt_header = ''OSKAR Interferometer simulation'',
      ini_missing = ''Interferometer'',
      executing = ''    Executing OSKAR Interferometer simulation...'',
      success_console = ''    OSKAR Interferometer simulation finished successfully.'',
      success_log = ''\<newline>--- Simulation Successful ---\<newline>'',
      failed_console = ''    ERROR: OSKAR Interferometer simulation failed with exit code '',
      failed_log = ''\<newline>!!! ERROR: Simulation Failed (Exit Code: '',
      unexpected = ''    ERROR: An unexpected error occurred: '',
      closing = ''--- Logging for this attempt concluded at ''\<rparr>"

definition beam_texts :: texts where
  "beam_texts =
     \<lparr>attempt_header = ''OSKAR Beam Pattern simulation'',
      ini_missing = ''Beam Pattern'',
      executing = ''    Executing OSKAR Beam Pattern simulation...'',
      success_console = ''    OSKAR Beam Pattern simulation finished successfully.'',
      success_log = ''\<newline>--- Simulation Successful ---\<newline>'',
      failed_console = ''    ERROR: OSKAR Beam Pattern simulation failed with exit code '',
      failed_log = ''\<newline>!!! ERROR: Simulation Failed (Exit Code: '',
      unexpected = ''    ERROR: An unexpected error occurred while running OSKAR Beam Pattern: '',
      closing = ''--- Logging for this OSKAR Beam attempt concluded at ''\<rparr>"

definition hyperdrive_texts :: texts where
  "hyperdrive_texts =
     \<lparr>attempt_header = ''Hyperdrive'',
      ini_missing = [],
      executing = ''    Executing Hyperdrive calibration...'',
      success_console = ''    Hyperdrive finished successfully.'',
      success_log = ''\<newline>--- Hyperdrive Successful ---\<newline>'',
      failed_console = ''    ERROR: Hyperdrive failed with exit code '',
      failed_log = ''\<newline>!!! ERROR: Hyperdrive Failed (Exit Code: '',
      unexpected = ''    ERROR: An unexpected error occurred while running OSKAR Beam Pattern: '',
      closing = ''--- Logging for this Hyperdrive attempt concluded at ''\<rparr>"

definition run_oskar_sim_interf :: "env \<Rightarrow> string \<Rightarrow> string \<Rightarrow> string \<Rightarrow> bool \<Rightarrow> world \<Rightarrow> bool \<times> world" where
  "run_oskar_sim_interf env executable_path ini_file_path cwd_path is_dry_run w =
     run_logged env interf_texts executable_path [executable_path, ini_file_path]
       (shlex_quote executable_path @ '' '' @ shlex_quote ini_file_path)
       (Some ini_file_path) cwd_path is_dry_run w"

definition run_oskar_sim_beam :: "env \<Rightarrow> string \<Rightarrow> string \<Rightarrow> string \<Rightarrow> bool \<Rightarrow> world \<Rightarrow> bool \<times> world" where
  "run_oskar_sim_beam env executable_path ini_file_path cwd_path is_dry_run w =
     run_logged env beam_texts executable_path [executable_path, ini_file_path]
       (shlex_quote executable_path @ '' '' @ shlex_quote ini_file_path)
       (Some ini_file_path) cwd_path is_dry_run w"

definition as_str :: "pyval \<Rightarrow> exn + string" where
  \<comment> \<open>the argument of \<^verbatim>\<open>shlex.quote\<close> must be a string\<close>
  "as_str v = (case v of PStr s \<Rightarrow> Inr s | _ \<Rightarrow> Inl TypeError)"

definition run_calibrate ::
  "env \<Rightarrow> pyval \<Rightarrow> pyval \<Rightarrow> pyval \<Rightarrow> string \<Rightarrow> bool \<Rightarrow> world \<Rightarrow> exn + (bool \<times> world)" where
  \<comment> \<open>the command and its display are built before the \<^verbatim>\<open>try\<close>: what raises there is
      not caught\<close>
  "run_calibrate env executable_path hyperdrive_cfg global_output_cfg cwd_path is_dry_run w =
     ebind (py_get global_output_cfg ''interf_ms_base_filename'' (PStr ''sim.ms'')) (\<lambda>ms.
     ebind (py_get hyperdrive_cfg ''srclist'' PNone) (\<lambda>srclist.
     ebind (py_get hyperdrive_cfg ''sol_output'' (PStr ''hyperdrive_solutions.fits'')) (\<lambda>sol.
     ebind (as_str executable_path) (\<lambda>exe.
       (let args = [''-d '' @ py_str ms, ''--source-list '' @ py_str srclist, ''-o '' @ py_str sol]
        in Inr (run_logged env hyperdrive_texts exe (exe # args)
                  (shlex_quote exe @ '' '' @ args ! 0 @ '' '' @ args ! 1 @ '' '' @ args ! 2)
                  None cwd_path is_dry_run w))))))"

section \<open>The sweep\<close>

definition write_ini_file_with_configparser :: "env \<Rightarrow> pyval \<Rightarrow> string \<Rightarrow> world \<Rightarrow> exn + world" where
  \<comment> \<open>the sections of the \<^verbatim>\<open>ConfigParser\<close>, then \<^verbatim>\<open>open(output_path, "w")\<close>\<close>
  "write_ini_file_with_configparser env ini_data_dict output_path w =
     ebind (py_items ini_data_dict) (\<lambda>items.
       let (config, w1) =
             foldl (\<lambda>(config, w) (section_name, settings_dict).
                      case settings_dict of
                        PDict d \<Rightarrow>
                          (AList.update section_name (flatten_settings_for_configparser d []) config, w)
                      | _ \<Rightarrow>
                          (config,
                           py_print (''# WARNING: Skipping section '' @ [CHR 0x27] @ section_name
                                     @ [CHR 0x27] @ '' as its value is not a dictionary.'') w))
               ([], w) items
       in case write_file env (tick w1) output_path of
            Some e \<Rightarrow> Inl e
          | None \<Rightarrow>
              Inr (w1\<lparr>files := (if output_path \<in> set (files w1) then files w1
                                  else files w1 @ [output_path]),
                        written := written w1 @ [(output_path, config)],
                        tick := Suc (tick w1)\<rparr>))"

definition rsplit_dot :: "string \<Rightarrow> string" where
  \<comment> \<open>\<^verbatim>\<open>s.rsplit(".", 1)[0]\<close> for a string with a dot\<close>
  "rsplit_dot s = rev (tl (dropWhile (\<lambda>c. c \<noteq> CHR ''.'') (rev s)))"

definition get_sky_model_name_no_ext :: "pyval \<Rightarrow> exn + pyval" where
  "get_sky_model_name_no_ext sky_model_filename_basename =
     (case sky_model_filename_basename of
        PStr s \<Rightarrow> Inr (PStr (if CHR ''.'' \<in> set s then rsplit_dot s else s))
      | PList xs \<Rightarrow>
          if PStr ''.'' \<in> set xs then Inl AttributeError else Inr sky_model_filename_basename
      | PDict d \<Rightarrow>
          if ''.'' \<in> fst ` set d then Inl AttributeError else Inr sky_model_filename_basename
      | _ \<Rightarrow> Inl TypeError)"

definition as_dict :: "pyval \<Rightarrow> exn + dict" where
  "as_dict v = (case v of PDict d \<Rightarrow> Inr d | _ \<Rightarrow> Inl TypeError)"

definition format_receiver :: "pyval \<Rightarrow> exn + string" where
  \<comment> \<open>the receiver of \<^verbatim>\<open>.format\<close> must be a string\<close>
  "format_receiver v = (case v of PStr s \<Rightarrow> Inr s | _ \<Rightarrow> Inl AttributeError)"

definition py_iter :: "pyval \<Rightarrow> exn + pyval list" where
  \<comment> \<open>the items a \<^verbatim>\<open>for\<close> loop runs over\<close>
  "py_iter v =
     (case v of
        PList xs \<Rightarrow> Inr xs
      | PDict d \<Rightarrow> Inr (map (\<lambda>kv. PStr (fst kv)) d)
      | PStr s \<Rightarrow> Inr (map (\<lambda>c. PStr [c]) s)
      | _ \<Rightarrow> Inl TypeError)"

text \<open>The local names of \<^verbatim>\<open>main\<close> that its loops read.\<close>

record locals =
  run_settings :: pyval
  output_cfg :: pyval
  oskar_defaults :: pyval
  executables_cfg :: pyval
  hyperdrive_cfg :: pyval
  base_output_dir :: string
  images_folder_pattern :: pyval
  beam_ini_filename_template :: pyval
  sky_models_base_dir_str :: pyval
  telescope_configs :: pyval
  sky_model_configs :: pyval
  phase_centre_configs :: pyval

definition extract_locals :: "pyval \<Rightarrow> exn + locals" where
  \<comment> \<open>\<^verbatim>\<open>main\<close> from \<^verbatim>\<open># Extract configurations\<close> to \<^verbatim>\<open># Get iterables\<close>\<close>
  "extract_locals master_config =
     ebind (py_get master_config ''run_settings'' (PDict [])) (\<lambda>rs.
     ebind (py_get master_config ''output_config'' (PDict [])) (\<lambda>oc.
     ebind (py_get master_config ''iteration_parameters'' (PDict [])) (\<lambda>iter_params.
     ebind (py_get master_config ''oskar_ini_defaults'' (PDict [])) (\<lambda>defs.
     ebind (py_get master_config ''executables'' (PDict [])) (\<lambda>ex.
     ebind (py_get master_config ''hyperdrive_settings'' PNone) (\<lambda>hy.
     ebind (ebind (py_get oc ''base_output_directory'' (PStr ''simulation_outputs_generated''))
              as_path) (\<lambda>base.
     ebind (py_get oc ''images_folder_pattern''
              (PStr ''images_{sky_name_no_ext}_{tel_name}{error_suffix}_{pc_id}'')) (\<lambda>pat.
     ebind (py_get oc ''beam_ini_filename'' (PStr ''beam.ini'')) (\<lambda>beam_ini.
     ebind (py_get iter_params ''telescope_configs'' (PList [])) (\<lambda>tels.
     ebind (py_get iter_params ''sky_model_configs'' (PList [])) (\<lambda>skies.
     ebind (py_get iter_params ''sky_models_base_dir'' (PStr ''sky_models'')) (\<lambda>sky_base.
     ebind (py_get iter_params ''phase_centre_configs'' (PList [])) (\<lambda>pcs.
       Inr \<lparr>run_settings = rs, output_cfg = oc, oskar_defaults = defs, executables_cfg = ex,
            hyperdrive_cfg = hy, base_output_dir = base, images_folder_pattern = pat,
            beam_ini_filename_template = beam_ini, sky_models_base_dir_str = sky_base,
            telescope_configs = tels, sky_model_configs = skies,
            phase_centre_configs = pcs\<rparr>)))))))))))))"

definition run_output_dir :: "env \<Rightarrow> locals \<Rightarrow> pyval \<Rightarrow> pyval \<Rightarrow> pyval \<Rightarrow> exn + string" where
  \<comment> \<open>step 1 of the loop body: the name of the run directory of a combination\<close>
  "run_output_dir env c tel_cfg sky_cfg pc_cfg =
     ebind (py_get tel_cfg ''name'' (PStr ''unknown_tel'')) (\<lambda>tel_name.
     ebind (py_get sky_cfg ''filename'' (PStr ''unknown_sky.osm'')) (\<lambda>sky_filename.
     ebind (py_get pc_cfg ''id'' (PStr ''unknown_pc'')) (\<lambda>pc_id.
     ebind (get_sky_model_name_no_ext sky_filename) (\<lambda>sky_name_no_ext.
     ebind (py_get (run_settings c) ''include_telescope_errors'' (PBool False))
       (\<lambda>is_errors_globally_on.
     ebind (format_receiver (images_folder_pattern c)) (\<lambda>pattern.
     ebind (format_pattern env pattern
              [(''sky_name_no_ext'', sky_name_no_ext), (''tel_name'', tel_name),
               (''error_suffix'',
                  PStr (if py_truthy is_errors_globally_on then ''_errors_on'' else ''_errors_off'')),
               (''pc_id'', pc_id)])
       (\<lambda>current_run_images_folder_name.
          Inr (path_join (base_output_dir c) current_run_images_folder_name))))))))"

definition beam_stage ::
  "env \<Rightarrow> locals \<Rightarrow> pyval \<Rightarrow> pyval \<Rightarrow> string \<Rightarrow> string \<Rightarrow> world \<Rightarrow> exn + world" where
  \<comment> \<open>the block \<^verbatim>\<open>if run_settings.get("run_beam_sim")\<close>\<close>
  "beam_stage env c tel_cfg pc_cfg current_run_output_dir project_root w =
     (let w1 = py_print ''  Preparing Beam Simulation INI...'' w in
      ebind (as_path (beam_ini_filename_template c)) (\<lambda>name.
      let beam_ini_path = path_join current_run_output_dir name in
      ebind (as_dict (oskar_defaults c)) (\<lambda>defs.
      ebind (as_dict tel_cfg) (\<lambda>tel.
      ebind (as_dict pc_cfg) (\<lambda>pc.
      ebind (as_dict (run_settings c)) (\<lambda>rs.
      ebind (as_dict (output_cfg c)) (\<lambda>oc.
      ebind (generate_beam_ini_data (fsys env) defs tel pc rs oc current_run_output_dir project_root)
        (\<lambda>beam_init_data.
      ebind (write_ini_file_with_configparser env beam_init_data beam_ini_path w1) (\<lambda>w2.
      let w3 = py_print ''    Now running simulation''
                 (py_print (''    Generated beam INI: '' @ resolve (fsys env) beam_ini_path) w2) in
      ebind (ebind (py_get (executables_cfg c) ''oskar_sim_beam_patter''
                      (PStr ''oskar_sim_beam_pattern'')) as_str) (\<lambda>exe.
      ebind (py_get (run_settings c) ''dry_run'' (PBool False)) (\<lambda>dry.
      let (success, w4) = run_oskar_sim_beam env exe beam_ini_path current_run_output_dir
                            (py_truthy dry) w3
      in Inr (if success \<and> \<not> py_truthy dry
              then py_print ''    Successfully finished OSKAR beam sim'' w4 else w4))))))))))))"

definition interf_stage ::
  "env \<Rightarrow> locals \<Rightarrow> pyval \<Rightarrow> pyval \<Rightarrow> pyval \<Rightarrow> string \<Rightarrow> string \<Rightarrow> world \<Rightarrow> exn + world" where
  \<comment> \<open>the block \<^verbatim>\<open>if run_settings.get("run_interf_sim")\<close>\<close>
  "interf_stage env c tel_cfg sky_cfg pc_cfg current_run_output_dir project_root w =
     (let w1 = py_print ''  Preparing Interferometer Simulation INI...'' w in
      ebind (as_dict (oskar_defaults c)) (\<lambda>defs.
      ebind (as_dict tel_cfg) (\<lambda>tel.
      ebind (as_dict sky_cfg) (\<lambda>sky.
      ebind (as_dict pc_cfg) (\<lambda>pc.
      ebind (as_dict (run_settings c)) (\<lambda>rs.
      ebind (as_dict (output_cfg c)) (\<lambda>oc.
      ebind (generate_interf_ini_data (fsys env) defs tel sky pc rs oc (sky_models_base_dir_str c)
               current_run_output_dir project_root) (\<lambda>interf_ini_data.
      ebind (ebind (py_get (output_cfg c) ''interf_ini_filename'' (PStr ''interf.ini'')) as_path)
        (\<lambda>name.
      let interf_ini_path = path_join current_run_output_dir name in
      ebind (write_ini_file_with_configparser env interf_ini_data interf_ini_path w1) (\<lambda>w2.
      let w3 = py_print ''    Now running simulation''
                 (py_print (''    Generated Interferometer INI: ''
                            @ resolve (fsys env) interf_ini_path) w2) in
      ebind (ebind (py_get (executables_cfg c) ''oskar_sim_interferometer''
                      (PStr ''oskar_sim_interferometer'')) as_str) (\<lambda>exe.
      ebind (py_get (run_settings c) ''dry_run'' (PBool False)) (\<lambda>dry.
      let (success, w4) = run_oskar_sim_interf env exe interf_ini_path current_run_output_dir
                            (py_truthy dry) w3
      in Inr (if success \<and> \<not> py_truthy dry
              then py_print ''    Successfully finished OSKAR sim'' w4 else w4)))))))))))))"

definition calib_stage :: "env \<Rightarrow> locals \<Rightarrow> string \<Rightarrow> world \<Rightarrow> exn + world" where
  \<comment> \<open>the block \<^verbatim>\<open>if run_settings.get("run_hyperdrive")\<close>\<close>
  "calib_stage env c current_run_output_dir w =
     ebind (py_get (executables_cfg c) ''hyperdrive'' (PStr ''hyperdrive'')) (\<lambda>exe.
     ebind (py_get (run_settings c) ''dry_run'' (PBool False)) (\<lambda>dry.
     ebind (run_calibrate env exe (hyperdrive_cfg c) (output_cfg c) current_run_output_dir
              (py_truthy dry) w)
       (\<lambda>r. Inr (snd r))))"

definition when_enabled :: "locals \<Rightarrow> string \<Rightarrow> (world \<Rightarrow> exn + world) \<Rightarrow> world \<Rightarrow> exn + world" where
  \<comment> \<open>\<^verbatim>\<open>if run_settings.get(flag): stage\<close>\<close>
  "when_enabled c flag stage w =
     ebind (py_get (run_settings c) flag PNone)
       (\<lambda>on. if py_truthy on then stage w else Inr w)"

definition run_combination ::
  "env \<Rightarrow> locals \<Rightarrow> pyval \<Rightarrow> pyval \<Rightarrow> pyval \<Rightarrow> nat \<times> world \<Rightarrow> exn + nat \<times> world" where
  \<comment> \<open>the body of the innermost loop\<close>
  "run_combination env c tel_cfg sky_cfg pc_cfg st =
     (let run_counter = Suc (fst st); w = snd st in
      ebind (py_get tel_cfg ''name'' (PStr ''unknown_tel'')) (\<lambda>tel_name.
      ebind (py_get sky_cfg ''filename'' (PStr ''unknown_sky.osm'')) (\<lambda>sky_filename.
      ebind (py_get pc_cfg ''id'' (PStr ''unknown_pc'')) (\<lambda>pc_id.
      let w1 = py_print (''  Telescope: '' @ py_str tel_name @ '', Sky: '' @ py_str sky_filename
                         @ '', Phase Centre: '' @ py_str pc_id)
                 (py_print (''\<newline>--- Preparing Config for Run '' @ nat_dec run_counter @ '' ---'') w) in
      ebind (run_output_dir env c tel_cfg sky_cfg pc_cfg) (\<lambda>current_run_output_dir.
      case make_dir env (tick w1) current_run_output_dir of
        Some e \<Rightarrow> Inl e
      | None \<Rightarrow>
          (let w2 = py_print (''  Output Directory: '' @ resolve (fsys env) current_run_output_dir)
                      (w1\<lparr>mkdirs := mkdirs w1 @ [current_run_output_dir],
                           tick := Suc (tick w1)\<rparr>);
               project_root = resolve (fsys env) ''.''
           in ebind (when_enabled c ''run_beam_sim''
                       (beam_stage env c tel_cfg pc_cfg current_run_output_dir project_root) w2)
                (\<lambda>w3.
              ebind (when_enabled c ''run_interf_sim''
                       (interf_stage env c tel_cfg sky_cfg pc_cfg current_run_output_dir
                          project_root) w3)
                (\<lambda>w4.
              ebind (when_enabled c ''run_hyperdrive''
                       (calib_stage env c current_run_output_dir) w4)
                (\<lambda>w5. Inr (run_counter, w5))))))))))"

fun pc_loop ::
  "env \<Rightarrow> locals \<Rightarrow> pyval \<Rightarrow> pyval \<Rightarrow> pyval list \<Rightarrow> nat \<times> world \<Rightarrow> exn + nat \<times> world" where
  "pc_loop env c tel_cfg sky_cfg [] st = Inr st"
| "pc_loop env c tel_cfg sky_cfg (pc_cfg # rest) st =
     ebind (run_combination env c tel_cfg sky_cfg pc_cfg st) (pc_loop env c tel_cfg sky_cfg rest)"

fun sky_loop ::
  "env \<Rightarrow> locals \<Rightarrow> pyval \<Rightarrow> pyval list \<Rightarrow> nat \<times> world \<Rightarrow> exn + nat \<times> world" where
  "sky_loop env c tel_cfg [] st = Inr st"
| "sky_loop env c tel_cfg (sky_cfg # rest) st =
     ebind (ebind (py_iter (phase_centre_configs c))
              (\<lambda>pcs. pc_loop env c tel_cfg sky_cfg pcs st))
       (sky_loop env c tel_cfg rest)"

fun tel_loop :: "env \<Rightarrow> locals \<Rightarrow> pyval list \<Rightarrow> nat \<times> world \<Rightarrow> exn + nat \<times> world" where
  "tel_loop env c [] st = Inr st"
| "tel_loop env c (tel_cfg # rest) st =
     ebind (ebind (py_iter (sky_model_configs c))
              (\<lambda>skies. sky_loop env c tel_cfg skies st))
       (tel_loop env c rest)"

definition empty_axes_warning :: string where
  "empty_axes_warning =
     ''Warning: One or more iteration parameter lists (telescopes, skies, phase_centres) are empty. No INI files will be generated.''"

definition sweep :: "env \<Rightarrow> locals \<Rightarrow> world \<Rightarrow> exn + world" where
  \<comment> \<open>\<^verbatim>\<open>main\<close> from the test of the three lists to its last \<^verbatim>\<open>print\<close>\<close>
  "sweep env c w =
     (if \<not> (py_truthy (telescope_configs c) \<and> py_truthy (sky_model_configs c)
             \<and> py_truthy (phase_centre_configs c))
      then Inr (py_print empty_axes_warning w)
      else
        ebind (ebind (py_iter (telescope_configs c)) (\<lambda>tels. tel_loop env c tels (0, w)))
          (\<lambda>st. Inr (py_print (''\<newline>Generated configuration for '' @ nat_dec (fst st)
                                @ '' runs in base directory: ''
                                @ resolve (fsys env) (base_output_dir c)) (snd st))))"

datatype loaded = ConfigNotFound | YAMLError string | Loaded pyval

definition main :: "env \<Rightarrow> string \<Rightarrow> loaded \<Rightarrow> world \<Rightarrow> exn + world" where
  "main env config_file_path yaml w =
     (case yaml of
        ConfigNotFound \<Rightarrow>
          Inr (py_print (''ERROR: Configuration file not found at '' @ config_file_path) w)
      | YAMLError e \<Rightarrow>
          Inr (py_print (''ERROR: Could not parse YAML configuration file: '' @ e) w)
      | Loaded master_config \<Rightarrow>
          ebind (extract_locals master_config) (\<lambda>c. sweep env c w))"

section \<open>Reading the claims\<close>

subsection \<open>What the specification says of the flattener\<close>

text \<open>
  The reachable scalars of a settings mapping, each with the list of keys that leads to
  it from the root, in traversal order: an entry whose value is \<^verbatim>\<open>None\<close> is left
  out, a nested mapping is entered, every other value is a scalar.
\<close>

function reachable_scalars :: "dict \<Rightarrow> (string list \<times> pyval) list" where
  "reachable_scalars [] = []"
| "reachable_scalars ((key, val) # rest) =
     (case val of
        PNone \<Rightarrow> []
      | PDict sub \<Rightarrow> map (\<lambda>pv. (key # fst pv, snd pv)) (reachable_scalars sub)
      | _ \<Rightarrow> [([key], val)]) @ reachable_scalars rest"
  by pat_completeness auto
termination
  by (relation "measure (size_list (size_prod (\<lambda>x. 0) size))") auto

definition serialize :: "pyval \<Rightarrow> string" where
  "serialize v = (case v of PBool b \<Rightarrow> (if b then ''true'' else ''false'') | _ \<Rightarrow> py_str v)"

definition entries_at :: "string \<Rightarrow> dict \<Rightarrow> flat" where
  "entries_at pfx d =
     map (\<lambda>pv. (pfx @ join_sep (fst pv), serialize (snd pv))) (reachable_scalars d)"

definition flat_entries :: "dict \<Rightarrow> flat" where
  "flat_entries d = map (\<lambda>pv. (join_sep (fst pv), serialize (snd pv))) (reachable_scalars d)"

subsection \<open>Fields of a compiled tree\<close>

fun lookup_path :: "string list \<Rightarrow> pyval \<Rightarrow> pyval option" where
  "lookup_path [] v = Some v"
| "lookup_path (k # ks) v =
     (case v of
        PDict d \<Rightarrow> (case map_of d k of Some sub \<Rightarrow> lookup_path ks sub | None \<Rightarrow> None)
      | _ \<Rightarrow> None)"

text \<open>\<open>indep p k q\<close>: writing key \<open>k\<close> of the object at path \<open>p\<close> cannot change what
  is found at path \<open>q\<close>.\<close>

fun indep :: "string list \<Rightarrow> string \<Rightarrow> string list \<Rightarrow> bool" where
  "indep [] k [] = False"
| "indep [] k (k' # r) = (k' \<noteq> k)"
| "indep (a # p) k [] = False"
| "indep (a # p) k (b # q) = (a \<noteq> b \<or> indep p k q)"

definition touches_only :: "string \<Rightarrow> (pyval \<Rightarrow> exn + pyval) \<Rightarrow> bool" where
  "touches_only k f =
     (\<forall>obj obj' k' r. f obj = Inr obj' \<longrightarrow> k' \<noteq> k \<longrightarrow>
         lookup_path (k' # r) obj' = lookup_path (k' # r) obj)"

definition keeps :: "string list \<Rightarrow> stmt \<Rightarrow> bool" where
  "keeps q s = (\<forall>t t'. s t = Inr t' \<longrightarrow> lookup_path q t' = lookup_path q t)"

definition element_path :: "string list" where
  "element_path = [''telescope'', ''aperture_array'', ''array_pattern'', ''element'']"

definition errors_flag_on :: "dict \<Rightarrow> bool" where
  "errors_flag_on global_run_settings =
     (case map_of global_run_settings ''include_telescope_errors'' of
        None \<Rightarrow> False
      | Some v \<Rightarrow> py_truthy v)"

definition pc_std :: "dict \<Rightarrow> string \<Rightarrow> pyval" where
  "pc_std current_pc_config k =
     (case map_of current_pc_config k of None \<Rightarrow> PStr ''0.0'' | Some v \<Rightarrow> v)"

definition error_time_fields :: "pyval \<Rightarrow> pyval option list" where
  "error_time_fields tree =
     map (\<lambda>k. lookup_path (element_path @ [k]) tree)
       [''x_gain_error_time'', ''y_gain_error_time'',
        ''x_phase_error_time_deg'', ''y_phase_error_time_deg'']"

definition error_fields_resolved :: "dict \<Rightarrow> dict \<Rightarrow> pyval \<Rightarrow> bool" where
  "error_fields_resolved global_run_settings current_pc_config tree =
     (if errors_flag_on global_run_settings
      then error_time_fields tree =
             [Some (pc_std current_pc_config ''gain_error_std''),
              Some (pc_std current_pc_config ''gain_error_std''),
              Some (pc_std current_pc_config ''phase_error_std''),
              Some (pc_std current_pc_config ''phase_error_std'')]
      else error_time_fields tree =
             [Some (PStr ''0.0''), Some (PStr ''0.0''), Some (PStr ''0.0''), Some (PStr ''0.0'')])"

subsection \<open>Normalised absolute paths\<close>

text \<open>
  A component of a normalised path is not empty, is neither \<^verbatim>\<open>.\<close> nor \<^verbatim>\<open>..\<close> and
  has no separator. \<open>single_root\<close>: an absolute path that does not begin with exactly
  the two slashes POSIX leaves to the implementation. \<open>abs_norm\<close>: what
  \<^verbatim>\<open>Path.resolve()\<close> returns. \<open>roundtrips\<close>: joining the relative path back onto the run
  directory and normalising gives the target.
\<close>

definition valid_comp :: "string \<Rightarrow> bool" where
  "valid_comp c = (c \<noteq> [] \<and> c \<noteq> ''.'' \<and> c \<noteq> ''..'' \<and> CHR ''/'' \<notin> set c)"

definition single_root :: "string \<Rightarrow> bool" where
  "single_root p = (is_abs p \<and> take 2 p \<noteq> ''//'')"



subsection \<open>Log files\<close>

text \<open>
  \<open>log_grows\<close>: every log file keeps what it had and is only extended.
  \<open>closing_entry_appended\<close>: what the \<^verbatim>\<open>finally\<close> block does to the logs, from the
  world \<open>w\<close> it starts in: when its \<^verbatim>\<open>open\<close> succeeds, the closing entry with the
  time stamp is the last entry of the log file and nothing else changes; when it fails,
  the logs are as they were.
\<close>

definition log_grows :: "world \<Rightarrow> world \<Rightarrow> bool" where
  "log_grows w w' = (\<forall>p. prefix (logs w p) (logs w' p))"


subsection \<open>Sample inputs\<close>

definition fs0 :: fsenv where
  "fs0 = \<lparr>getcwd = ''/home/u/proj'', resolve = normpath\<rparr>"

definition defaults0 :: dict where
  "defaults0 =
     [(''General'', PDict [(''version'', PStr ''2.8'')]),
      (''simulator'', PDict [(''use_gpus'', PBool False)]),
      (''telescope'',
         PDict [(''aperture_array'',
                   PDict [(''array_pattern'',
                             PDict [(''element'', PDict [(''x_gain'', PFloat ''1.0'')])])])]),
      (''interferometer_module'',
         PDict [(''interferometer'', PDict [(''channel_bandwidth_hz'', PInt 10000)]),
                (''sky'',
                   PDict [(''oskar_sky_model'',
                             PDict [(''filter'', PDict [(''radius_outer_deg'', PInt 30)])])])]),
      (''beam_pattern_module'',
         PDict [(''beam_pattern'', PDict [(''beam_image'', PDict [(''fov_deg'', PInt 180)])])])]"

definition pc0 :: dict where
  "pc0 = [(''id'', PStr ''pc1''), (''ra_deg'', PFloat ''0.0''), (''dec_deg'', PFloat ''-27.0''),
          (''start_time_utc'', PStr ''2000-01-01 12:00:00''), (''gain_error_std'', PStr ''0.05'')]"

definition tel0 :: dict where
  "tel0 = [(''name'', PStr ''MWA''), (''oskar_input_directory'', PStr ''telescopes/mwa.tm'')]"

definition sky0 :: dict where
  "sky0 = [(''filename'', PStr ''model_a.osm'')]"




section \<open>Properties\<close>

subsection \<open>Helper lemmas on association lists\<close>

lemma ebind_Inr: "ebind m f = Inr y \<longleftrightarrow> (\<exists>x. m = Inr x \<and> f x = Inr y)"
  by (cases m) (simp_all add: ebind_def)

lemma update_fresh: "k \<notin> fst ` set al \<Longrightarrow> AList.update k v al = al @ [(k, v)]"
  by (induction al) auto

lemma update_all_distinct:
  "distinct (map fst (acc @ xs)) \<Longrightarrow> dict_update_all acc xs = acc @ xs"
  unfolding dict_update_all_def
proof (induction xs arbitrary: acc)
  case Nil
  then show ?case by simp
next
  case (Cons x xs)
  have "AList.update (fst x) (snd x) acc = acc @ [x]"
    using Cons.prems by (intro update_fresh[THEN trans]) auto
  then show ?case using Cons.IH[of "acc @ [x]"] Cons.prems by simp
qed

lemma map_of_update_all:
  "map_of (dict_update_all acc xs) = map_of acc ++ map_of (rev xs)"
  unfolding dict_update_all_def
  by (induction xs arbitrary: acc)
     (auto simp: update_conv' map_add_upd_left fun_eq_iff map_add_def split: option.splits)

lemma distinct_update_all:
  "distinct (map fst acc) \<Longrightarrow> distinct (map fst (dict_update_all acc xs))"
  unfolding dict_update_all_def
  by (induction xs arbitrary: acc) (auto simp: distinct_update)

lemma map_of_rev_distinct:
  "distinct (map fst xs) \<Longrightarrow> map_of (rev xs) = map_of xs"
proof (induction xs)
  case Nil
  then show ?case by simp
next
  case (Cons x xs)
  have "fst x \<notin> dom (map_of xs)" using Cons.prems by (auto simp: dom_map_of_conv_image_fst)
  then have "map_of xs (fst x) = None" by blast
  with Cons show ?case
    by (cases x) (auto simp: fun_eq_iff map_add_def split: option.splits)
qed

subsection \<open>The flattener\<close>

lemma lower_bool: "str_lower (py_str (PBool b)) = (if b then ''true'' else ''false'')"
proof -
  have "str_lower (py_str (PBool True)) = ''true''" by code_simp
  moreover have "str_lower (py_str (PBool False)) = ''false''" by code_simp
  ultimately show ?thesis by (cases b) simp_all
qed

lemma entries_at_Nil: "entries_at pfx [] = []"
  by (simp add: entries_at_def)

lemma join_sep_Cons: "p \<noteq> [] \<Longrightarrow> join_sep (k # p) = k @ ''/'' @ join_sep p"
  by (cases p) auto

lemma reachable_nonempty: "pv \<in> set (reachable_scalars d) \<Longrightarrow> fst pv \<noteq> []"
  by (induction d arbitrary: pv rule: reachable_scalars.induct) (auto split: pyval.splits)

lemma entries_at_Cons:
  "entries_at pfx ((key, val) # rest) =
     (case val of
        PNone \<Rightarrow> []
      | PDict sub \<Rightarrow> entries_at (pfx @ key @ ''/'') sub
      | _ \<Rightarrow> [(pfx @ key, serialize val)]) @ entries_at pfx rest"
  using reachable_nonempty
  by (auto simp: entries_at_def join_sep_Cons split: pyval.splits)

lemma flatten_loop_distinct:
  "distinct (map fst acc) \<Longrightarrow> distinct (map fst (flatten_loop d pfx acc))"
  by (induction d pfx acc rule: flatten_loop.induct)
     (auto simp: distinct_update distinct_update_all split: pyval.splits)

lemma flatten_loop_map:
  "map_of (flatten_loop d pfx acc) = map_of acc ++ map_of (rev (entries_at pfx d))"
proof (induction d pfx acc rule: flatten_loop.induct)
  case (1 pfx flat_dict)
  then show ?case by (simp add: entries_at_Nil)
next
  case (2 key val rest pfx flat_dict)
  show ?case
  proof (cases val)
    case (PDict sub)
    let ?F = "flatten_loop sub (pfx @ key @ ''/'') []"
    have "distinct (map fst ?F)" by (simp add: flatten_loop_distinct)
    then have "map_of (rev ?F) = map_of ?F" by (simp add: map_of_rev_distinct)
    also have "\<dots> = map_of (rev (entries_at (pfx @ key @ ''/'') sub))"
      using 2 PDict by simp
    finally show ?thesis using 2 PDict
      by (simp add: entries_at_Cons map_of_update_all)
  qed (use 2 in \<open>auto simp: entries_at_Cons update_conv' serialize_def lower_bool fun_eq_iff
                    map_add_def split: option.splits\<close>)
qed

lemma flatten_loop_distinct_entries:
  "distinct (map fst (acc @ entries_at pfx d)) \<Longrightarrow>
     flatten_loop d pfx acc = acc @ entries_at pfx d"
proof (induction d pfx acc rule: flatten_loop.induct)
  case (1 pfx flat_dict)
  then show ?case by (simp add: entries_at_Nil)
next
  case (2 key val rest pfx flat_dict)
  show ?case
  proof (cases val)
    case (PDict sub)
    let ?A = "entries_at (pfx @ key @ ''/'') sub"
    from "2.prems" PDict have dist: "distinct (map fst (flat_dict @ ?A @ entries_at pfx rest))"
      by (simp add: entries_at_Cons)
    then have "flatten_loop sub (pfx @ key @ ''/'') [] = ?A"
      using 2 PDict by simp
    moreover have "dict_update_all flat_dict ?A = flat_dict @ ?A"
      using dist by (intro update_all_distinct) auto
    moreover have "flatten_loop rest pfx (flat_dict @ ?A) = (flat_dict @ ?A) @ entries_at pfx rest"
      using 2 PDict dist by (simp add: calculation image_Un Int_Un_distrib Int_Un_distrib2)
    ultimately show ?thesis using PDict
      by (simp add: entries_at_Cons)
  qed (use 2 in \<open>auto simp: entries_at_Cons update_fresh serialize_def lower_bool\<close>)
qed

lemma entries_at_empty_prefix: "entries_at [] d = flat_entries d"
  by (simp add: entries_at_def flat_entries_def)

lemma reachable_are_scalars:
  "pv \<in> set (reachable_scalars d) \<Longrightarrow> snd pv \<noteq> PNone \<and> (\<forall>sub. snd pv \<noteq> PDict sub)"
  by (induction d arbitrary: pv rule: reachable_scalars.induct) (auto split: pyval.splits)

text \<open>
  C2, as the code has it. The flat dictionary maps every joined path of a reachable scalar
  to the serialization of the last reachable scalar with that joined path, and has no
  other key; when no two reachable scalars have the same joined path, it has exactly one
  entry per reachable scalar, in traversal order. A reachable scalar is never
  \<^verbatim>\<open>None\<close>, a boolean is written \<^verbatim>\<open>true\<close> or \<^verbatim>\<open>false\<close>, any other scalar as
  \<^verbatim>\<open>str\<close> gives it, and the keys are joined unchanged.
\<close>

theorem flatten_entries:
  "map_of (flatten_settings_for_configparser d []) = map_of (rev (flat_entries d))
   \<and> (distinct (map fst (flat_entries d)) \<longrightarrow>
        flatten_settings_for_configparser d [] = flat_entries d)
   \<and> (\<forall>pv \<in> set (reachable_scalars d). snd pv \<noteq> PNone)
   \<and> serialize (PBool True) = ''true'' \<and> serialize (PBool False) = ''false''"
  using flatten_loop_map[of d "[]" "[]"] flatten_loop_distinct_entries[of "[]" "[]" d]
    reachable_are_scalars[of _ d]
  by (auto simp: flatten_settings_for_configparser_def entries_at_empty_prefix serialize_def)

theorem flatten_entries_witness:
  "distinct (map fst (flat_entries
       [(''a'', PDict [(''B'', PBool True), (''n'', PNone), (''c'', PDict [(''d'', PInt (-25))])]),
        (''e'', PStr ''x'')]))
   \<and> flatten_settings_for_configparser
       [(''a'', PDict [(''B'', PBool True), (''n'', PNone), (''c'', PDict [(''d'', PInt (-25))])]),
        (''e'', PStr ''x'')] []
     = [(''a/B'', ''true''), (''a/c/d'', ''-25''), (''e'', ''x'')]"
proof -
  let ?d = "[(''a'', PDict [(''B'', PBool True), (''n'', PNone), (''c'', PDict [(''d'', PInt (-25))])]),
             (''e'', PStr ''x'')]"
  have fe: "flat_entries ?d = [(''a/B'', ''true''), (''a/c/d'', ''-25''), (''e'', ''x'')]"
    by code_simp
  have "distinct (map fst (flat_entries ?d))" by (simp add: fe)
  with flatten_entries[of ?d] fe show ?thesis by simp
qed

text \<open>
  C2 as stated fails: two reachable scalars with the same joined path give one entry.
\<close>

theorem flatten_collision_counterexample:
  "length (reachable_scalars [(''a/b'', PInt 1), (''a'', PDict [(''b'', PInt 2)])]) = 2
   \<and> flatten_settings_for_configparser [(''a/b'', PInt 1), (''a'', PDict [(''b'', PInt 2)])] []
       = [(''a/b'', ''2'')]"
  by code_simp


subsection \<open>Statements and the fields they leave alone\<close>

lemma touches_only_setitem: "touches_only k (\<lambda>obj. py_setitem obj k v)"
  by (auto simp: touches_only_def py_setitem_def update_conv' split: pyval.splits)

lemma touches_only_setdefault: "touches_only k (\<lambda>obj. py_setdefault obj k)"
  by (auto simp: touches_only_def py_setdefault_def update_conv'
           split: pyval.splits option.splits)

lemma update_at_indep:
  "touches_only k f \<Longrightarrow> update_at p f t = Inr t' \<Longrightarrow> indep p k q \<Longrightarrow>
     lookup_path q t' = lookup_path q t"
proof (induction p arbitrary: q t t')
  case Nil
  then show ?case by (cases q) (auto simp: touches_only_def)
next
  case (Cons a p)
  from Cons.prems(3) obtain b q' where q: "q = b # q'" by (cases q) auto
  from Cons.prems(2) obtain d sub sub' where
    t: "t = PDict d" and sub: "map_of d a = Some sub"
    and upd: "update_at p f sub = Inr sub'" and t': "t' = PDict (AList.update a sub' d)"
    by (auto simp: ebind_Inr split: pyval.splits option.splits)
  show ?case
  proof (cases "a = b")
    case True
    with Cons.prems(3) q have "indep p k q'" by simp
    from Cons.IH[OF Cons.prems(1) upd this] show ?thesis
      using True q t t' sub by (simp add: update_conv')
  next
    case False
    then show ?thesis using q t t' by (simp add: update_conv')
  qed
qed

lemma update_at_sets:
  "update_at p (\<lambda>obj. py_setitem obj k v) t = Inr t' \<Longrightarrow> lookup_path (p @ [k]) t' = Some v"
proof (induction p arbitrary: t t')
  case Nil
  then show ?case by (auto simp: py_setitem_def update_conv' split: pyval.splits)
next
  case (Cons a p)
  then show ?case
    by (auto simp: ebind_Inr update_conv' split: pyval.splits option.splits)
qed

lemma keeps_assign: "indep p k q \<Longrightarrow> keeps q (assign_at p k rhs)"
  unfolding keeps_def assign_at_def
  by (auto simp: ebind_Inr intro: update_at_indep[OF touches_only_setitem])

lemma keeps_setdefault: "indep p k q \<Longrightarrow> keeps q (setdefault_at p k)"
  unfolding keeps_def setdefault_at_def
  by (auto intro: update_at_indep[OF touches_only_setdefault])

lemma keeps_eval: "keeps q (eval_stmt e)"
  unfolding keeps_def eval_stmt_def by (auto simp: ebind_Inr)

lemma keeps_setdefault_assign:
  assumes "indep p k0 q" and "indep (p @ [k0]) k q"
  shows "keeps q (setdefault_assign_at p k0 k rhs)"
  unfolding keeps_def
proof (intro allI impI)
  fix t t'
  assume "setdefault_assign_at p k0 k rhs t = Inr t'"
  then obtain v t1 where "update_at p (\<lambda>obj. py_setdefault obj k0) t = Inr t1"
    and "update_at (p @ [k0]) (\<lambda>obj. py_setitem obj k v) t1 = Inr t'"
    by (auto simp: setdefault_assign_at_def setdefault_at_def ebind_Inr)
  then show "lookup_path q t' = lookup_path q t"
    using update_at_indep[OF touches_only_setdefault _ assms(1)]
      update_at_indep[OF touches_only_setitem _ assms(2)]
    by simp
qed

lemmas keeps_simps = keeps_assign keeps_setdefault keeps_eval keeps_setdefault_assign

lemma run_stmts_append:
  "run_stmts (xs @ ys) t = ebind (run_stmts xs t) (run_stmts ys)"
  by (induction xs arbitrary: t) (auto simp: ebind_def split: sum.splits)

lemma run_stmts_keeps:
  "list_all (keeps q) ss \<Longrightarrow> run_stmts ss t = Inr t' \<Longrightarrow> lookup_path q t' = lookup_path q t"
  by (induction ss arbitrary: t) (auto simp: ebind_Inr keeps_def)

lemma run_stmts_assigned:
  assumes "run_stmts (pre @ assign_at p k rhs # post) t = Inr t'"
    and "list_all (keeps (p @ [k])) post"
  shows "\<exists>v. rhs = Inr v \<and> lookup_path (p @ [k]) t' = Some v"
proof -
  from assms(1) obtain t1 t2 where "run_stmts pre t = Inr t1"
    and a: "assign_at p k rhs t1 = Inr t2" and r: "run_stmts post t2 = Inr t'"
    by (auto simp: run_stmts_append ebind_Inr)
  from a obtain v where "rhs = Inr v" and "lookup_path (p @ [k]) t2 = Some v"
    by (auto simp: assign_at_def ebind_Inr dest: update_at_sets)
  with run_stmts_keeps[OF assms(2) r] show ?thesis by simp
qed

lemma keeps_beam_pattern:
  "list_all (keeps (''telescope'' # r)) (beam_pattern_stmts defs oc)"
  by (simp add: beam_pattern_stmts_def Let_def keeps_simps)

lemma keeps_interferometer:
  "list_all (keeps (''telescope'' # r)) (interferometer_stmts defs oc)"
  by (simp add: interferometer_stmts_def Let_def keeps_simps)

lemma keeps_sky:
  "list_all (keeps (''telescope'' # r)) (sky_stmts fs defs sky base rundir root)"
  by (simp add: sky_stmts_def Let_def keeps_simps)

lemma beam_run:
  assumes "generate_beam_ini_data fs defs tel pc rs oc rundir root = Inr tree"
  shows "\<exists>t0. run_stmts
           ((general_stmts ''oskar_sim_beam_pattern'' defs @ simulator_stmts defs
             @ observation_stmts defs pc)
            @ telescope_stmts fs defs tel rundir root
            @ error_stmts rs pc @ beam_pattern_stmts defs oc) t0 = Inr tree"
  using assms by (auto simp: generate_beam_ini_data_def ebind_Inr)

lemma interf_run:
  assumes "generate_interf_ini_data fs defs tel sky pc rs oc base rundir root = Inr tree"
  shows "\<exists>t0. run_stmts
           ((general_stmts ''oskar_sim_interferometer'' defs @ simulator_stmts defs
             @ observation_stmts defs pc)
            @ telescope_stmts fs defs tel rundir root
            @ error_stmts rs pc
            @ interferometer_stmts defs oc @ sky_stmts fs defs sky base rundir root) t0 = Inr tree"
  using assms by (auto simp: generate_interf_ini_data_def ebind_Inr)

subsection \<open>The error-injection toggle\<close>

lemma error_stmts_result:
  assumes run: "run_stmts (pre @ error_stmts rs pc @ post) t = Inr t'"
    and post: "\<And>r. list_all (keeps (''telescope'' # r)) post"
  shows "error_fields_resolved rs pc t'"
proof -
  define g where "g = (if errors_flag_on rs then pc_std pc ''gain_error_std'' else PStr ''0.0'')"
  define h where "h = (if errors_flag_on rs then pc_std pc ''phase_error_std'' else PStr ''0.0'')"
  let ?a1 = "assign_at element_path ''x_gain_error_time'' (Inr g)"
  let ?a2 = "assign_at element_path ''y_gain_error_time'' (Inr g)"
  let ?a3 = "assign_at element_path ''x_phase_error_time_deg'' (Inr h)"
  let ?a4 = "assign_at element_path ''y_phase_error_time_deg'' (Inr h)"
  have e: "error_stmts rs pc = [?a1, ?a2, ?a3, ?a4]"
    by (simp add: error_stmts_def Let_def g_def h_def element_path_def errors_flag_on_def
        pc_std_def dget_def split: option.splits)
  have p: "list_all (keeps (element_path @ [k])) post" for k
    using post by (simp add: element_path_def)
  have r1: "run_stmts (pre @ ?a1 # ([?a2, ?a3, ?a4] @ post)) t = Inr t'"
    and r2: "run_stmts ((pre @ [?a1]) @ ?a2 # ([?a3, ?a4] @ post)) t = Inr t'"
    and r3: "run_stmts ((pre @ [?a1, ?a2]) @ ?a3 # ([?a4] @ post)) t = Inr t'"
    and r4: "run_stmts ((pre @ [?a1, ?a2, ?a3]) @ ?a4 # post) t = Inr t'"
    using run by (simp_all add: e)
  have k: "keeps (element_path @ [k]) (assign_at element_path k' rhs)" if "k \<noteq> k'" for k k' rhs
    using that by (intro keeps_assign) (simp add: element_path_def)
  have "lookup_path (element_path @ [''x_gain_error_time'']) t' = Some g"
    using run_stmts_assigned[OF r1] p by (simp add: k)
  moreover have "lookup_path (element_path @ [''y_gain_error_time'']) t' = Some g"
    using run_stmts_assigned[OF r2] p by (simp add: k)
  moreover have "lookup_path (element_path @ [''x_phase_error_time_deg'']) t' = Some h"
    using run_stmts_assigned[OF r3] p by (simp add: k)
  moreover have "lookup_path (element_path @ [''y_phase_error_time_deg'']) t' = Some h"
    using run_stmts_assigned[OF r4] p by (simp add: k)
  ultimately show ?thesis
    by (simp add: error_fields_resolved_def error_time_fields_def g_def h_def)
qed

text \<open>
  C1. Whenever a compiler returns a tree, the four time-varying error fields of
  \<^verbatim>\<open>telescope/aperture_array/array_pattern/element\<close> are resolved as
  \<^const>\<open>error_fields_resolved\<close> says: all \<^verbatim>\<open>"0.0"\<close> when the global flag is absent or
  false, and otherwise the phase centre's \<^verbatim>\<open>gain_error_std\<close> for both gain fields and
  its \<^verbatim>\<open>phase_error_std\<close> for both phase fields, \<^verbatim>\<open>"0.0"\<close> standing for a missing
  key. This holds for the beam tree and for the interferometer tree.
\<close>

theorem error_injection_toggle:
  "(generate_beam_ini_data fs defs tel pc rs oc rundir root = Inr beam_tree
      \<longrightarrow> error_fields_resolved rs pc beam_tree)
   \<and> (generate_interf_ini_data fs defs tel sky pc rs oc base rundir root = Inr interf_tree
      \<longrightarrow> error_fields_resolved rs pc interf_tree)"
proof (intro conjI impI)
  assume "generate_beam_ini_data fs defs tel pc rs oc rundir root = Inr beam_tree"
  from beam_run[OF this] obtain t0 where
    "run_stmts
       (((general_stmts ''oskar_sim_beam_pattern'' defs @ simulator_stmts defs
          @ observation_stmts defs pc) @ telescope_stmts fs defs tel rundir root)
        @ error_stmts rs pc @ beam_pattern_stmts defs oc) t0 = Inr beam_tree"
    by auto
  from error_stmts_result[OF this keeps_beam_pattern]
  show "error_fields_resolved rs pc beam_tree" .
next
  assume "generate_interf_ini_data fs defs tel sky pc rs oc base rundir root = Inr interf_tree"
  from interf_run[OF this] obtain t0 where
    "run_stmts
       (((general_stmts ''oskar_sim_interferometer'' defs @ simulator_stmts defs
          @ observation_stmts defs pc) @ telescope_stmts fs defs tel rundir root)
        @ error_stmts rs pc
        @ (interferometer_stmts defs oc @ sky_stmts fs defs sky base rundir root)) t0
     = Inr interf_tree"
    by auto
  moreover have "list_all (keeps (''telescope'' # r))
      (interferometer_stmts defs oc @ sky_stmts fs defs sky base rundir root)" for r
    by (simp add: keeps_interferometer keeps_sky)
  ultimately show "error_fields_resolved rs pc interf_tree"
    by (rule error_stmts_result)
qed

lemma sum_is_Inr: "(case m of Inl e \<Rightarrow> False | Inr x \<Rightarrow> True) \<Longrightarrow> \<exists>x. m = Inr x"
  by (cases m) auto

theorem error_injection_toggle_witness:
  "(\<exists>bt. generate_beam_ini_data fs0 defaults0 tel0 pc0 [(''include_telescope_errors'', PBool True)] []
            ''out/run1'' ''/home/u/proj'' = Inr bt
        \<and> error_time_fields bt
            = [Some (PStr ''0.05''), Some (PStr ''0.05''), Some (PStr ''0.0''), Some (PStr ''0.0'')])
   \<and> (\<exists>it. generate_interf_ini_data fs0 defaults0 tel0 sky0 pc0 [] []
            (PStr ''sky_models'') ''out/run1'' ''/home/u/proj'' = Inr it
        \<and> error_time_fields it
            = [Some (PStr ''0.0''), Some (PStr ''0.0''), Some (PStr ''0.0''), Some (PStr ''0.0'')])"
proof -
  let ?on = "[(''include_telescope_errors'', PBool True)]"
  have "case generate_beam_ini_data fs0 defaults0 tel0 pc0 ?on [] ''out/run1'' ''/home/u/proj''
        of Inl e \<Rightarrow> False | Inr x \<Rightarrow> True"
    by code_simp
  then obtain bt where
    bt: "generate_beam_ini_data fs0 defaults0 tel0 pc0 ?on [] ''out/run1'' ''/home/u/proj'' = Inr bt"
    by (auto dest: sum_is_Inr)
  have "case generate_interf_ini_data fs0 defaults0 tel0 sky0 pc0 [] [] (PStr ''sky_models'') ''out/run1''
          ''/home/u/proj'' of Inl e \<Rightarrow> False | Inr x \<Rightarrow> True"
    by code_simp
  then obtain it where
    it: "generate_interf_ini_data fs0 defaults0 tel0 sky0 pc0 [] [] (PStr ''sky_models'') ''out/run1''
          ''/home/u/proj'' = Inr it"
    by (auto dest: sum_is_Inr)
  have "error_fields_resolved ?on pc0 bt"
    using error_injection_toggle[of fs0 defaults0 tel0 pc0 ?on "[]" "''out/run1''" "''/home/u/proj''" bt]
      bt by simp
  moreover have "error_fields_resolved [] pc0 it"
    using error_injection_toggle[of fs0 defaults0 tel0 pc0 "[]" "[]" "''out/run1''" "''/home/u/proj''" _
        sky0 "PStr ''sky_models''" it] it by simp
  ultimately show ?thesis using bt it
    by (simp add: error_fields_resolved_def errors_flag_on_def pc_std_def pc0_def)
qed

subsection \<open>The visibility-set file name\<close>

lemma interf_ms_filename:
  assumes "generate_interf_ini_data fs defs tel sky pc rs oc base rundir root = Inr tree"
  shows "lookup_path [''interferometer'', ''ms_filename''] tree
           = Some (case map_of oc ''interf_ms_base_filename'' of
                     Some v \<Rightarrow> v | None \<Rightarrow> PStr ''vis_default.ms'')"
proof -
  let ?v = "dget oc ''interf_ms_base_filename'' (PStr ''vis_default.ms'')"
  let ?m = "py_get (dget defs ''interferometer_module'' (PDict [])) ''interferometer'' (PDict [])"
  let ?rest = "[assign_at [''interferometer''] ''channel_bandwidth_hz''
            (ebind ?m (\<lambda>d. py_get d ''channel_bandwidth_hz'' PNone)),
          assign_at [''interferometer''] ''time_average_sec''
            (ebind ?m (\<lambda>d. py_get d ''time_average_sec'' PNone))]"
  from interf_run[OF assms] obtain t0 where
    "run_stmts
       (((general_stmts ''oskar_sim_interferometer'' defs @ simulator_stmts defs
          @ observation_stmts defs pc) @ telescope_stmts fs defs tel rundir root
          @ error_stmts rs pc @ [setdefault_at [] ''interferometer'', eval_stmt ?m])
        @ assign_at [''interferometer''] ''ms_filename'' (Inr ?v)
        # (?rest @ sky_stmts fs defs sky base rundir root)) t0 = Inr tree"
    by (auto simp: interferometer_stmts_def Let_def)
  moreover have "list_all (keeps ([''interferometer''] @ [''ms_filename'']))
       (?rest @ sky_stmts fs defs sky base rundir root)"
    by (simp add: sky_stmts_def Let_def keeps_simps)
  ultimately show ?thesis
    using run_stmts_assigned by (fastforce simp: dget_def)
qed

text \<open>
  C6. The field \<^verbatim>\<open>interferometer/ms_filename\<close> is the output configuration's
  \<^verbatim>\<open>interf_ms_base_filename\<close>; with that key absent the compiler writes
  \<^verbatim>\<open>vis_default.ms\<close>, not the \<^verbatim>\<open>vis.ms\<close> that \<^verbatim>\<open>main\<close> gives as the default of the
  same key.
\<close>

theorem ms_filename_default_is_vis_default:
  "\<exists>tree. generate_interf_ini_data fs0 defaults0 tel0 sky0 pc0 [] []
            (PStr ''sky_models'') ''out/run1'' ''/home/u/proj'' = Inr tree
      \<and> lookup_path [''interferometer'', ''ms_filename''] tree = Some (PStr ''vis_default.ms'')
      \<and> PStr ''vis_default.ms'' \<noteq> PStr ''vis.ms''"
proof -
  have "case generate_interf_ini_data fs0 defaults0 tel0 sky0 pc0 [] [] (PStr ''sky_models'') ''out/run1''
          ''/home/u/proj'' of Inl e \<Rightarrow> False | Inr x \<Rightarrow> True"
    by code_simp
  then obtain it where
    it: "generate_interf_ini_data fs0 defaults0 tel0 sky0 pc0 [] [] (PStr ''sky_models'') ''out/run1''
          ''/home/u/proj'' = Inr it"
    by (auto dest: sum_is_Inr)
  from interf_ms_filename[OF it] it show ?thesis by simp
qed


subsection \<open>Relative paths\<close>

lemma split_sep_nonempty: "split_sep s \<noteq> []"
  by (induction s) (auto split: list.splits)


lemma split_sep_append:
  "CHR ''/'' \<notin> set x \<Longrightarrow> split_sep (x @ s) = (x @ hd (split_sep s)) # tl (split_sep s)"
  using split_sep_nonempty[of s]
  by (induction x) (auto split: list.splits)

lemma split_sep_plain: "CHR ''/'' \<notin> set x \<Longrightarrow> split_sep x = [x]"
  using split_sep_append[of x "[]"] by simp

lemma split_sep_join:
  "\<forall>c \<in> set C. CHR ''/'' \<notin> set c \<Longrightarrow> C \<noteq> [] \<Longrightarrow> split_sep (join_sep C) = C"
proof (induction C rule: join_sep.induct)
  case 1
  then show ?case by simp
next
  case (2 x)
  then show ?case by (simp add: split_sep_plain)
next
  case (3 x y ys)
  then have "split_sep (join_sep (y # ys)) = y # ys" by simp
  moreover have "split_sep (x @ ''/'' @ join_sep (y # ys)) = x # split_sep (join_sep (y # ys))"
    using 3(2) by (simp add: split_sep_append)
  ultimately show ?case by simp
qed


lemma norm_step_valid: "valid_comp c \<Longrightarrow> norm_step b acc c = acc @ [c]"
  by (simp add: norm_step_def valid_comp_def)

lemma fold_push: "\<forall>c \<in> set cs. valid_comp c \<Longrightarrow> foldl (norm_step b) acc cs = acc @ cs"
  by (induction cs arbitrary: acc) (auto simp: norm_step_valid)





lemma normpath_abs:
  assumes "single_root X"
  shows "normpath X = ''/'' @ join_sep (foldl (norm_step True) [] (split_sep X))"
  using assms by (auto simp: normpath_def single_root_def is_abs_def Let_def split: list.splits)




lemma join_sep_hd:
  "C \<noteq> [] \<Longrightarrow> hd C \<noteq> [] \<Longrightarrow> join_sep C \<noteq> [] \<and> hd (join_sep C) = hd (hd C)"
  by (induction C rule: join_sep.induct) auto


lemma single_root_join:
  assumes "C \<noteq> []" "hd C \<noteq> []" "hd (hd C) \<noteq> CHR ''/''"
  shows "single_root (''/'' @ join_sep C)"
  using join_sep_hd[OF assms(1,2)] assms(3)
  by (cases "join_sep C") (auto simp: single_root_def is_abs_def)

lemma norm_step_empty: "norm_step b acc [] = acc"
  by (simp add: norm_step_def)

lemma normpath_root: "normpath ''/'' = ''/''"
  by code_simp

lemma valid_comp_hd: "valid_comp c \<Longrightarrow> c \<noteq> [] \<and> hd c \<noteq> CHR ''/''"
  by (cases c) (auto simp: valid_comp_def)

lemma normpath_of_comps:
  assumes "\<forall>c \<in> set P. valid_comp c"
  shows "normpath (''/'' @ join_sep P) = ''/'' @ join_sep P"
proof (cases "P = []")
  case True
  then show ?thesis using normpath_root by simp
next
  case False
  have ns: "\<forall>c \<in> set P. CHR ''/'' \<notin> set c" using assms by (auto simp: valid_comp_def)
  have "valid_comp (hd P)" using False assms by simp
  then have "hd P \<noteq> []" "hd (hd P) \<noteq> CHR ''/''" using valid_comp_hd by blast+
  then have sr: "single_root (''/'' @ join_sep P)" using False by (intro single_root_join)
  have "split_sep (''/'' @ join_sep P) = [] # P"
    using split_sep_join[OF ns False] by simp
  then have "foldl (norm_step True) [] (split_sep (''/'' @ join_sep P)) = P"
    using fold_push[OF assms, of True "[]"] by (simp add: norm_step_empty)
  with normpath_abs[OF sr] show ?thesis by simp
qed
















subsection \<open>The process runners\<close>



lemma log_grows_same: "logs w' = logs w \<Longrightarrow> log_grows w w'"
  by (simp add: log_grows_def)

































end
